theory Spec2Isabelle
  imports Complex_Main
begin

section \<open>Numbers, vectors and the pseudo-random stream\<close>

text \<open>
  The program is TypeScript. A JavaScript \<open>number\<close> is modelled as a \<open>real\<close>: the model
  is the arithmetic the code writes down, without the rounding of IEEE doubles. Quantities
  that the code only ever holds as non-negative integers (the generator state, the loop
  counter, the object count) are \<open>nat\<close>; the result of \<open>Math.floor\<close> is an \<open>int\<close>.

  \<open>Vector3\<close> of three.js is a record of three reals. Its fields \<open>x\<close>, \<open>y\<close>, \<open>z\<close> are
  called \<open>vec_x\<close>, \<open>vec_y\<close>, \<open>vec_z\<close> here, so that the letters stay free for variables.
\<close>

record vec3 =
  vec_x :: real
  vec_y :: real
  vec_z :: real

definition Vector3 :: "real \<Rightarrow> real \<Rightarrow> real \<Rightarrow> vec3" where
  "Vector3 a b c = \<lparr>vec_x = a, vec_y = b, vec_z = c\<rparr>"

text \<open>\<open>Vector3.distanceTo\<close>: the Euclidean distance of two points.\<close>

definition distanceTo :: "vec3 \<Rightarrow> vec3 \<Rightarrow> real" where
  "distanceTo p q =
     sqrt ((vec_x p - vec_x q) * (vec_x p - vec_x q)
         + (vec_y p - vec_y q) * (vec_y p - vec_y q)
         + (vec_z p - vec_z q) * (vec_z p - vec_z q))"

text \<open>
  \<open>createRng\<close> of scatterData: the closure's variable \<open>state\<close> is threaded explicitly.
  \<open>seed >>> 0\<close> reduces the seed to an unsigned 32-bit integer; \<open>rand\<close> is one call of
  the closure and returns the sample together with the new state.
\<close>

definition createRng :: "nat \<Rightarrow> nat" where
  "createRng seed = seed mod 4294967296"

definition lcg :: "nat \<Rightarrow> nat" where
  "lcg state = (1664525 * state + 1013904223) mod 4294967296"

definition rand :: "nat \<Rightarrow> real \<times> nat" where
  "rand state = (real (lcg state) / 4294967296, lcg state)"

section \<open>The scatter generator\<close>

record ScatteredObject =
  so_position :: vec3
  so_type :: int
  so_size :: real
  so_rotation :: real
  so_colorIndex :: int
  so_key :: string

text \<open>The template string \<open>obj-${i}\<close> needs the decimal digits of the counter.\<close>

definition digit_char :: "nat \<Rightarrow> char" where
  "digit_char d = char_of (48 + d)"

fun string_of_nat :: "nat \<Rightarrow> string" where
  "string_of_nat n =
     (if n < 10 then [digit_char n]
      else string_of_nat (n div 10) @ [digit_char (n mod 10)])"

text \<open>
  One pass through the body of the \<open>for\<close> loop of \<open>generateScatteredObjects\<close>: seven
  calls of \<open>rand\<close>, in the order of the source, and the object that is pushed. The result
  is the object and the generator state after the seventh call.
\<close>

definition scatter_body ::
  "nat \<Rightarrow> real \<Rightarrow> real \<Rightarrow> nat \<Rightarrow> nat \<Rightarrow> ScatteredObject \<times> nat" where
  "scatter_body count startRadius wallRadius i st0 =
     (let (r1, st1) = rand st0;
          angle = (real i / real count) * pi * 2 + r1 * 0.5;
          (r2, st2) = rand st1;
          distance = startRadius + r2 * (wallRadius - startRadius - 5);
          px = cos angle * distance;
          pz = sin angle * distance;
          (r3, st3) = rand st2;
          py = r3 * 5;
          (r4, st4) = rand st3;
          ty = \<lfloor>r4 * 4\<rfloor>;
          (r5, st5) = rand st4;
          sz = 1 + r5 * 3;
          (r6, st6) = rand st5;
          rotation = r6 * pi * 2;
          (r7, st7) = rand st6;
          colorIndex = \<lfloor>r7 * 6\<rfloor>
      in (\<lparr>so_position = Vector3 px py pz, so_type = ty, so_size = sz,
           so_rotation = rotation, so_colorIndex = colorIndex,
           so_key = ''obj-'' @ string_of_nat i\<rparr>, st7))"

text \<open>The loop \<open>for (let i = 0; i < count; i++)\<close>, with the generator state and the array.\<close>

function scatter_loop ::
  "nat \<Rightarrow> real \<Rightarrow> real \<Rightarrow> nat \<Rightarrow> nat \<Rightarrow> ScatteredObject list \<Rightarrow> ScatteredObject list" where
  "scatter_loop count startRadius wallRadius i st objects =
     (if i < count
      then scatter_loop count startRadius wallRadius (Suc i)
             (snd (scatter_body count startRadius wallRadius i st))
             (objects @ [fst (scatter_body count startRadius wallRadius i st)])
      else objects)"
  by pat_completeness auto
termination
  by (relation "measure (\<lambda>(count, startRadius, wallRadius, i, st, objects). count - i)") auto

definition generateScatteredObjects :: "nat \<Rightarrow> real \<Rightarrow> real \<Rightarrow> ScatteredObject list" where
  "generateScatteredObjects count startRadius wallRadius =
     scatter_loop count startRadius wallRadius 0 (createRng 12345) []"

text \<open>
  The algorithm as the specification words it: the stream is the sequence of iterates of
  the congruential step from the fixed seed, the \<open>k\<close>-th sample is the \<open>k\<close>-th iterate
  divided by \<open>2^32\<close>, and object \<open>i\<close> consumes samples \<open>7i+1\<close> to \<open>7i+7\<close> in the order
  angle jitter, distance, Y, type, size, rotation, colour.
\<close>

definition spec_state :: "nat \<Rightarrow> nat" where
  "spec_state k = ((\<lambda>s. (1664525 * s + 1013904223) mod 2 ^ 32) ^^ k) 12345"

definition spec_sample :: "nat \<Rightarrow> real" where
  "spec_sample k = real (spec_state k) / 2 ^ 32"

definition spec_jitter :: "nat \<Rightarrow> real" where
  "spec_jitter i = spec_sample (7 * i + 1) * 0.5"

definition spec_angle :: "nat \<Rightarrow> nat \<Rightarrow> real" where
  "spec_angle count i = (real i / real count) * (2 * pi) + spec_jitter i"

definition spec_distance :: "real \<Rightarrow> real \<Rightarrow> nat \<Rightarrow> real" where
  "spec_distance startRadius wallRadius i =
     startRadius + spec_sample (7 * i + 2) * (wallRadius - startRadius - 5)"

definition spec_object :: "nat \<Rightarrow> real \<Rightarrow> real \<Rightarrow> nat \<Rightarrow> ScatteredObject" where
  "spec_object count startRadius wallRadius i =
     \<lparr>so_position =
        \<lparr>vec_x = cos (spec_angle count i) * spec_distance startRadius wallRadius i,
         vec_y = spec_sample (7 * i + 3) * 5,
         vec_z = sin (spec_angle count i) * spec_distance startRadius wallRadius i\<rparr>,
      so_type = \<lfloor>spec_sample (7 * i + 4) * 4\<rfloor>,
      so_size = 1 + spec_sample (7 * i + 5) * 3,
      so_rotation = spec_sample (7 * i + 6) * (2 * pi),
      so_colorIndex = \<lfloor>spec_sample (7 * i + 7) * 6\<rfloor>,
      so_key = ''obj-'' @ string_of_nat i\<rparr>"

definition spec_generate :: "nat \<Rightarrow> real \<Rightarrow> real \<Rightarrow> ScatteredObject list" where
  "spec_generate count startRadius wallRadius =
     map (spec_object count startRadius wallRadius) [0..<count]"

section \<open>The collision index\<close>

definition SPEED :: real where "SPEED = 10"
definition SLOW_WALK_SPEED :: real where "SLOW_WALK_SPEED = 3"
definition JUMP_FORCE :: real where "JUMP_FORCE = 8"
definition GRAVITY :: real where "GRAVITY = - 20"
definition GROUND_HEIGHT :: real where "GROUND_HEIGHT = 2"
definition DUCK_HEIGHT :: real where "DUCK_HEIGHT = 1"
definition PLAYER_RADIUS :: real where "PLAYER_RADIUS = 0.5"
definition FOG_START_DISTANCE :: real where "FOG_START_DISTANCE = 25"
definition FOG_MAX_DISTANCE :: real where "FOG_MAX_DISTANCE = 100"
definition WALL_RADIUS :: real where "WALL_RADIUS = 75"
definition CENTER :: vec3 where "CENTER = Vector3 0 0 0"

lemmas constants =
  SPEED_def SLOW_WALK_SPEED_def JUMP_FORCE_def GRAVITY_def GROUND_HEIGHT_def
  DUCK_HEIGHT_def PLAYER_RADIUS_def FOG_START_DISTANCE_def FOG_MAX_DISTANCE_def
  WALL_RADIUS_def

text \<open>
  \<open>CollisionBounds\<close>: the string union \<open>"box" | "sphere" | "cylinder"\<close> is a datatype.
  The size vector holds width, height, depth of a box, and radius, height, unused of a
  sphere or cylinder.
\<close>

datatype BoundType = Box | Sphere | Cylinder

record CollisionBounds =
  cb_type :: BoundType
  cb_position :: vec3
  cb_size :: vec3

definition columnPositions :: "(real \<times> real \<times> real) list" where
  "columnPositions =
     [(- 8, 0, - 5), (- 8, 0, 5), (- 8, 0, 15), (8, 0, - 5), (8, 0, 5), (8, 0, 15)]"

text \<open>The three pushes of the callback of \<open>columnPositions.forEach\<close>.\<close>

definition columnBounds :: "real \<times> real \<times> real \<Rightarrow> CollisionBounds list" where
  "columnBounds c =
     (case c of (a, b, d) \<Rightarrow>
       [\<lparr>cb_type = Box, cb_position = Vector3 a (b + 0.5) d, cb_size = Vector3 2 1 2\<rparr>,
        \<lparr>cb_type = Cylinder, cb_position = Vector3 a (b + 6) d, cb_size = Vector3 0.8 10 0\<rparr>,
        \<lparr>cb_type = Box, cb_position = Vector3 a (b + 11.5) d,
         cb_size = Vector3 1.8 1 1.8\<rparr>])"

definition giantPos :: vec3 where
  "giantPos = Vector3 30 0 (- 30)"

definition giantBounds :: "CollisionBounds list" where
  "giantBounds =
     [\<lparr>cb_type = Cylinder,
       cb_position = Vector3 (vec_x giantPos) (vec_y giantPos + 12) (vec_z giantPos),
       cb_size = Vector3 4 12 0\<rparr>,
      \<lparr>cb_type = Sphere,
       cb_position = Vector3 (vec_x giantPos) (vec_y giantPos + 20) (vec_z giantPos),
       cb_size = Vector3 3 0 0\<rparr>,
      \<lparr>cb_type = Cylinder,
       cb_position = Vector3 (vec_x giantPos - 5) (vec_y giantPos + 12) (vec_z giantPos + 2),
       cb_size = Vector3 1 10 0\<rparr>,
      \<lparr>cb_type = Cylinder,
       cb_position = Vector3 (vec_x giantPos + 5) (vec_y giantPos + 12) (vec_z giantPos + 2),
       cb_size = Vector3 1 10 0\<rparr>]"

text \<open>
  The callback of \<open>scatteredObjects.forEach\<close>: an \<open>if\<close> chain on the type with no final
  \<open>else\<close>, so an object whose type is none of 0, 1, 2, 3 pushes nothing.
\<close>

definition scatteredBounds :: "ScatteredObject \<Rightarrow> CollisionBounds list" where
  "scatteredBounds obj =
     (let a = vec_x (so_position obj); b = vec_y (so_position obj);
          d = vec_z (so_position obj); sz = so_size obj
      in if so_type obj = 0 then
           [\<lparr>cb_type = Box, cb_position = Vector3 a (b + (sz * 1.5) / 2) d,
             cb_size = Vector3 sz (sz * 1.5) sz\<rparr>]
         else if so_type obj = 1 then
           [\<lparr>cb_type = Cylinder, cb_position = Vector3 a (b + sz) d,
             cb_size = Vector3 (sz * 0.5) (sz * 2) 0\<rparr>]
         else if so_type obj = 2 then
           [\<lparr>cb_type = Sphere, cb_position = Vector3 a b d,
             cb_size = Vector3 (sz * 0.7) 0 0\<rparr>]
         else if so_type obj = 3 then
           [\<lparr>cb_type = Cylinder, cb_position = Vector3 a (b + sz) d,
             cb_size = Vector3 (sz * 0.7) (sz * 2) 0\<rparr>]
         else [])"

definition generateCollisionBounds :: "ScatteredObject list \<Rightarrow> CollisionBounds list" where
  "generateCollisionBounds scatteredObjects =
     concat (map columnBounds columnPositions) @ giantBounds
       @ concat (map scatteredBounds scatteredObjects)"

text \<open>
  The shapes as the specification lists them, for a column standing at \<open>(a, b, d)\<close>, for
  the statue at its offset, and for a scattered object of each of the four types.
\<close>

definition spec_column_shapes :: "real \<Rightarrow> real \<Rightarrow> real \<Rightarrow> CollisionBounds list" where
  "spec_column_shapes a b d =
     [\<lparr>cb_type = Box, cb_position = \<lparr>vec_x = a, vec_y = b + 1 / 2, vec_z = d\<rparr>,
       cb_size = \<lparr>vec_x = 2, vec_y = 1, vec_z = 2\<rparr>\<rparr>,
      \<lparr>cb_type = Cylinder, cb_position = \<lparr>vec_x = a, vec_y = b + 6, vec_z = d\<rparr>,
       cb_size = \<lparr>vec_x = 4 / 5, vec_y = 10, vec_z = 0\<rparr>\<rparr>,
      \<lparr>cb_type = Box, cb_position = \<lparr>vec_x = a, vec_y = b + 23 / 2, vec_z = d\<rparr>,
       cb_size = \<lparr>vec_x = 9 / 5, vec_y = 1, vec_z = 9 / 5\<rparr>\<rparr>]"

definition spec_statue_shapes :: "CollisionBounds list" where
  "spec_statue_shapes =
     [\<lparr>cb_type = Cylinder, cb_position = \<lparr>vec_x = 30, vec_y = 12, vec_z = - 30\<rparr>,
       cb_size = \<lparr>vec_x = 4, vec_y = 12, vec_z = 0\<rparr>\<rparr>,
      \<lparr>cb_type = Sphere, cb_position = \<lparr>vec_x = 30, vec_y = 20, vec_z = - 30\<rparr>,
       cb_size = \<lparr>vec_x = 3, vec_y = 0, vec_z = 0\<rparr>\<rparr>,
      \<lparr>cb_type = Cylinder, cb_position = \<lparr>vec_x = 25, vec_y = 12, vec_z = - 28\<rparr>,
       cb_size = \<lparr>vec_x = 1, vec_y = 10, vec_z = 0\<rparr>\<rparr>,
      \<lparr>cb_type = Cylinder, cb_position = \<lparr>vec_x = 35, vec_y = 12, vec_z = - 28\<rparr>,
       cb_size = \<lparr>vec_x = 1, vec_y = 10, vec_z = 0\<rparr>\<rparr>]"

definition spec_scatter_shape :: "ScatteredObject \<Rightarrow> CollisionBounds" where
  "spec_scatter_shape obj =
     (let a = vec_x (so_position obj); b = vec_y (so_position obj);
          d = vec_z (so_position obj); sz = so_size obj
      in if so_type obj = 0 then
           \<lparr>cb_type = Box, cb_position = \<lparr>vec_x = a, vec_y = b + sz * 3 / 4, vec_z = d\<rparr>,
            cb_size = \<lparr>vec_x = sz, vec_y = sz * 3 / 2, vec_z = sz\<rparr>\<rparr>
         else if so_type obj = 1 then
           \<lparr>cb_type = Cylinder, cb_position = \<lparr>vec_x = a, vec_y = b + sz, vec_z = d\<rparr>,
            cb_size = \<lparr>vec_x = sz / 2, vec_y = sz * 2, vec_z = 0\<rparr>\<rparr>
         else if so_type obj = 2 then
           \<lparr>cb_type = Sphere, cb_position = \<lparr>vec_x = a, vec_y = b, vec_z = d\<rparr>,
            cb_size = \<lparr>vec_x = sz * 7 / 10, vec_y = 0, vec_z = 0\<rparr>\<rparr>
         else
           \<lparr>cb_type = Cylinder, cb_position = \<lparr>vec_x = a, vec_y = b + sz, vec_z = d\<rparr>,
            cb_size = \<lparr>vec_x = sz * 7 / 10, vec_y = sz * 2, vec_z = 0\<rparr>\<rparr>)"

section \<open>The collision test\<close>

text \<open>
  The body of the loop of \<open>checkCollision\<close> for one bound: whether this bound makes the
  function return \<open>true\<close>. \<open>playerBottom\<close> and \<open>playerTop\<close> are computed once, before
  the loop.
\<close>

definition boundHit :: "vec3 \<Rightarrow> real \<Rightarrow> real \<Rightarrow> CollisionBounds \<Rightarrow> bool" where
  "boundHit pos playerBottom playerTop bound =
     (case cb_type bound of
        Box \<Rightarrow>
          (let minX = vec_x (cb_position bound) - vec_x (cb_size bound) / 2;
               maxX = vec_x (cb_position bound) + vec_x (cb_size bound) / 2;
               minY = vec_y (cb_position bound) - vec_y (cb_size bound) / 2;
               maxY = vec_y (cb_position bound) + vec_y (cb_size bound) / 2;
               minZ = vec_z (cb_position bound) - vec_z (cb_size bound) / 2;
               maxZ = vec_z (cb_position bound) + vec_z (cb_size bound) / 2;
               closestX = max minX (min (vec_x pos) maxX);
               closestY = max minY (min (vec_y pos) maxY);
               closestZ = max minZ (min (vec_z pos) maxZ);
               distX = vec_x pos - closestX;
               distY = vec_y pos - closestY;
               distZ = vec_z pos - closestZ;
               distSq = distX * distX + distY * distY + distZ * distZ
           in distSq < PLAYER_RADIUS * PLAYER_RADIUS)
      | Sphere \<Rightarrow>
          (let dist = distanceTo pos (cb_position bound)
           in dist < PLAYER_RADIUS + vec_x (cb_size bound)
              \<and> playerBottom < vec_y (cb_position bound) + vec_x (cb_size bound)
              \<and> playerTop > vec_y (cb_position bound) - vec_x (cb_size bound))
      | Cylinder \<Rightarrow>
          (let dx = vec_x pos - vec_x (cb_position bound);
               dz = vec_z pos - vec_z (cb_position bound);
               horizontalDist = sqrt (dx * dx + dz * dz)
           in horizontalDist < PLAYER_RADIUS + vec_x (cb_size bound)
              \<and> (let cylBottom = vec_y (cb_position bound) - vec_y (cb_size bound) / 2;
                      cylTop = vec_y (cb_position bound) + vec_y (cb_size bound) / 2
                  in playerBottom < cylTop \<and> playerTop > cylBottom)))"

fun collisionLoop :: "CollisionBounds list \<Rightarrow> vec3 \<Rightarrow> real \<Rightarrow> real \<Rightarrow> bool" where
  "collisionLoop [] pos playerBottom playerTop = False"
| "collisionLoop (bound # rest) pos playerBottom playerTop =
     (if boundHit pos playerBottom playerTop bound then True
      else collisionLoop rest pos playerBottom playerTop)"

definition checkCollision :: "CollisionBounds list \<Rightarrow> vec3 \<Rightarrow> real \<Rightarrow> bool" where
  "checkCollision bounds pos playerHeight =
     (let playerBottom = vec_y pos - playerHeight / 2;
          playerTop = vec_y pos + playerHeight / 2
      in collisionLoop bounds pos playerBottom playerTop)"

section \<open>The player\<close>

record MoveState =
  forward :: bool
  backward :: bool
  left :: bool
  right :: bool
  jump :: bool
  duck :: bool
  slowWalk :: bool

text \<open>
  The table \<open>KEYS\<close> maps a key code to the name of a \<open>MoveState\<close> field; a code that is
  not in the table gives \<open>undefined\<close>, here \<open>None\<close>. (The codes are those a browser
  reports for a key, none of which names an inherited property of the table.)
\<close>

datatype FieldName = Forward | Backward | Left | Right | Jump

definition KEYS :: "string \<Rightarrow> FieldName option" where
  "KEYS key =
     (if key = ''KeyW'' then Some Forward
      else if key = ''KeyS'' then Some Backward
      else if key = ''KeyA'' then Some Left
      else if key = ''KeyD'' then Some Right
      else if key = ''Space'' then Some Jump
      else if key = ''ArrowUp'' then Some Forward
      else if key = ''ArrowDown'' then Some Backward
      else if key = ''ArrowLeft'' then Some Left
      else if key = ''ArrowRight'' then Some Right
      else None)"

text \<open>The assignment \<open>moveState.current[name] = b\<close>.\<close>

fun assignField :: "FieldName \<Rightarrow> bool \<Rightarrow> MoveState \<Rightarrow> MoveState" where
  "assignField Forward b ms = ms\<lparr>forward := b\<rparr>"
| "assignField Backward b ms = ms\<lparr>backward := b\<rparr>"
| "assignField Left b ms = ms\<lparr>left := b\<rparr>"
| "assignField Right b ms = ms\<lparr>right := b\<rparr>"
| "assignField Jump b ms = ms\<lparr>jump := b\<rparr>"

record KeyboardEvent =
  code :: string
  ctrlKey :: bool
  shiftKey :: bool

record Fog =
  near :: real
  far :: real

text \<open>
  The state of the \<open>Player\<close> component: the prop \<open>isLocked\<close>, the three refs, the camera
  position and the fog of the scene (\<open>scene.fog\<close> may be \<open>null\<close>). The collision index is
  computed once and never changes; \<open>checkCollision\<close> and the frame callback take it as
  the argument \<open>bounds\<close>.
\<close>

record Player =
  isLocked :: bool
  moveState :: MoveState
  velocityY :: real
  isGrounded :: bool
  camera :: vec3
  fog :: "Fog option"

text \<open>
  The two memoised values of the component: the scattered objects, generated with the
  default arguments, and the collision index built from them.
\<close>

definition scatteredObjects :: "ScatteredObject list" where
  "scatteredObjects = generateScatteredObjects 60 5 75"

definition staticCollisionBounds :: "CollisionBounds list" where
  "staticCollisionBounds = generateCollisionBounds scatteredObjects"

definition handleKeyDown :: "Player \<Rightarrow> KeyboardEvent \<Rightarrow> Player" where
  "handleKeyDown s e =
     (if \<not> isLocked s then s
      else
        let s1 = (if ctrlKey e \<or> code e = ''ControlLeft'' \<or> code e = ''ControlRight''
                  then s\<lparr>moveState := (moveState s)\<lparr>duck := True\<rparr>\<rparr> else s);
            s2 = (if shiftKey e \<or> code e = ''ShiftLeft'' \<or> code e = ''ShiftRight''
                  then s1\<lparr>moveState := (moveState s1)\<lparr>slowWalk := True\<rparr>\<rparr> else s1)
        in case KEYS (code e) of
             None \<Rightarrow> s2
           | Some name \<Rightarrow>
               if code e = ''Space'' then
                 (if isGrounded s2 \<and> velocityY s2 = 0
                  then s2\<lparr>velocityY := JUMP_FORCE, isGrounded := False\<rparr>
                  else s2)
               else s2\<lparr>moveState := assignField name True (moveState s2)\<rparr>)"

definition handleKeyUp :: "Player \<Rightarrow> KeyboardEvent \<Rightarrow> Player" where
  "handleKeyUp s e =
     (let s1 = (if code e = ''ControlLeft'' \<or> code e = ''ControlRight''
                then s\<lparr>moveState := (moveState s)\<lparr>duck := False\<rparr>\<rparr> else s);
          s2 = (if code e = ''ShiftLeft'' \<or> code e = ''ShiftRight''
                then s1\<lparr>moveState := (moveState s1)\<lparr>slowWalk := False\<rparr>\<rparr> else s1);
          s3 = (if \<not> ctrlKey e
                then s2\<lparr>moveState := (moveState s2)\<lparr>duck := False\<rparr>\<rparr> else s2);
          s4 = (if \<not> shiftKey e
                then s3\<lparr>moveState := (moveState s3)\<lparr>slowWalk := False\<rparr>\<rparr> else s3)
      in case KEYS (code e) of
           None \<Rightarrow> s4
         | Some name \<Rightarrow>
             if code e \<noteq> ''Space''
             then s4\<lparr>moveState := assignField name False (moveState s4)\<rparr>
             else s4)"

text \<open>
  The pointer lock is taken and released outside the component, which sees it as a new
  value of the prop. The effect that reacts to the change only registers the two handlers
  again; it writes to none of the refs.
\<close>

definition setLocked :: "bool \<Rightarrow> Player \<Rightarrow> Player" where
  "setLocked b s = s\<lparr>isLocked := b\<rparr>"

subsection \<open>The frame callback\<close>

text \<open>
  The vector operations of three.js that the callback uses. \<open>normalize\<close> divides by the
  length, or by 1 when the length is 0. The camera's rotation belongs to the renderer; the
  callback receives \<open>applyEuler(camera.rotation)\<close> as a function on vectors.
\<close>

definition Number :: "bool \<Rightarrow> real" where
  "Number b = (if b then 1 else 0)"

definition subVectors :: "vec3 \<Rightarrow> vec3 \<Rightarrow> vec3" where
  "subVectors a b = Vector3 (vec_x a - vec_x b) (vec_y a - vec_y b) (vec_z a - vec_z b)"

definition multiplyScalar :: "vec3 \<Rightarrow> real \<Rightarrow> vec3" where
  "multiplyScalar v k = Vector3 (vec_x v * k) (vec_y v * k) (vec_z v * k)"

definition vec_length :: "vec3 \<Rightarrow> real" where
  "vec_length v = sqrt (vec_x v * vec_x v + vec_y v * vec_y v + vec_z v * vec_z v)"

definition normalize :: "vec3 \<Rightarrow> vec3" where
  "normalize v = multiplyScalar v (1 / (if vec_length v = 0 then 1 else vec_length v))"

text \<open>\<open>Math.atan2\<close> on reals: the angle of the point \<open>(a, b)\<close>, in \<open>(-\<pi>, \<pi>]\<close>.\<close>

definition atan2 :: "real \<Rightarrow> real \<Rightarrow> real" where
  "atan2 b a =
     (if 0 < a then arctan (b / a)
      else if a < 0 then (if 0 \<le> b then arctan (b / a) + pi else arctan (b / a) - pi)
      else if 0 < b then pi / 2
      else if b < 0 then - (pi / 2)
      else 0)"

text \<open>
  Gravity, the vertical move, the ground test and the blending of the camera height
  towards the duck or the standing height: the new velocity, the new grounded flag and the
  new camera height.
\<close>

definition vertical :: "Player \<Rightarrow> real \<Rightarrow> real \<times> bool \<times> real" where
  "vertical s delta =
     (let vel1 = velocityY s + GRAVITY * delta;
          y1 = vec_y (camera s) + vel1 * delta;
          isOnGround = (y1 \<le> GROUND_HEIGHT)
      in if isOnGround then
           (let vel2 = (if vel1 < 0 then 0 else vel1);
                y2 = (if duck (moveState s) then
                        (let targetY = DUCK_HEIGHT
                         in if y1 > targetY then max targetY (y1 - 15 * delta) else targetY)
                      else
                        (let targetY = GROUND_HEIGHT
                         in if y1 < targetY then min targetY (y1 + 15 * delta) else targetY))
            in (vel2, True, y2))
         else (vel1, False, y1))"

text \<open>The candidate position \<open>(newX, newZ)\<close> of the horizontal move.\<close>

definition candidate :: "Player \<Rightarrow> real \<Rightarrow> (vec3 \<Rightarrow> vec3) \<Rightarrow> real \<times> real" where
  "candidate s delta applyEuler =
     (let ms = moveState s;
          currentSpeed = (if slowWalk ms then SLOW_WALK_SPEED else SPEED);
          frontVector = Vector3 0 0 (Number (backward ms) - Number (forward ms));
          sideVector = Vector3 (Number (left ms) - Number (right ms)) 0 0;
          direction =
            applyEuler
              (multiplyScalar (normalize (subVectors frontVector sideVector))
                 (currentSpeed * delta));
          newX = vec_x (camera s) + vec_x direction;
          newZ = vec_z (camera s) + vec_z direction
      in (newX, newZ))"

text \<open>The wall and the collision test: the horizontal position that is committed.\<close>

definition horizontal ::
  "CollisionBounds list \<Rightarrow> Player \<Rightarrow> real \<Rightarrow> real \<Rightarrow> real \<times> real" where
  "horizontal bounds s newX newZ =
     (let distanceFromCenter = sqrt (newX * newX + newZ * newZ)
      in if distanceFromCenter \<ge> WALL_RADIUS then
           (let angle = atan2 newZ newX
            in (cos angle * WALL_RADIUS, sin angle * WALL_RADIUS))
         else
           (let currentHeight = (if duck (moveState s) then DUCK_HEIGHT else GROUND_HEIGHT);
                testPos = Vector3 newX currentHeight newZ
            in if \<not> checkCollision bounds testPos currentHeight
               then (newX, newZ)
               else (vec_x (camera s), vec_z (camera s))))"

text \<open>The fog for a committed horizontal position.\<close>

definition fogIntensity :: "real \<Rightarrow> real" where
  "fogIntensity newDistance =
     max 0 (min 1 ((newDistance - FOG_START_DISTANCE)
                     / (FOG_MAX_DISTANCE - FOG_START_DISTANCE)))"

definition updateFog :: "Fog option \<Rightarrow> real \<Rightarrow> real \<Rightarrow> Fog option" where
  "updateFog fg cx cz =
     (let finalPos = Vector3 cx 0 cz;
          newDistance = distanceTo finalPos CENTER
      in case fg of
           None \<Rightarrow> None
         | Some f \<Rightarrow>
             Some (f\<lparr>near := 5 + fogIntensity newDistance * 15,
                     far := 30 + fogIntensity newDistance * 40\<rparr>))"

definition useFrame ::
  "CollisionBounds list \<Rightarrow> Player \<Rightarrow> real \<Rightarrow> (vec3 \<Rightarrow> vec3) \<Rightarrow> Player" where
  "useFrame bounds s delta applyEuler =
     (if \<not> isLocked s then s
      else
        let (vel, grounded, cy) = vertical s delta;
            (newX, newZ) = candidate s delta applyEuler;
            (cx, cz) = horizontal bounds s newX newZ
        in s\<lparr>velocityY := vel, isGrounded := grounded,
             camera := Vector3 cx cy cz,
             fog := updateFog (fog s) cx cz\<rparr>)"

subsection \<open>Runs of the component\<close>

text \<open>
  The state in which the component is mounted: the camera where the canvas of the scene
  puts it, the fog the scene declares, nothing pressed, the pointer not locked.
\<close>

definition initialMoveState :: MoveState where
  "initialMoveState =
     \<lparr>forward = False, backward = False, left = False, right = False, jump = False,
      duck = False, slowWalk = False\<rparr>"

definition initialPlayer :: Player where
  "initialPlayer =
     \<lparr>isLocked = False, moveState = initialMoveState, velocityY = 0, isGrounded = True,
      camera = Vector3 0 2 10, fog = Some \<lparr>near = 5, far = 30\<rparr>\<rparr>"

text \<open>
  The states the component can reach: the pointer lock changes, keys go down and up, and
  frames pass, each with an elapsed time between 0 and \<open>dmax\<close> and some camera rotation.
\<close>

inductive reachable :: "real \<Rightarrow> CollisionBounds list \<Rightarrow> Player \<Rightarrow> bool"
  for dmax :: real and bounds :: "CollisionBounds list" where
  reach_init: "reachable dmax bounds initialPlayer"
| reach_lock:
    "reachable dmax bounds s
     \<Longrightarrow> reachable dmax bounds (setLocked b s)"
| reach_down:
    "reachable dmax bounds s
     \<Longrightarrow> reachable dmax bounds (handleKeyDown s e)"
| reach_up:
    "reachable dmax bounds s
     \<Longrightarrow> reachable dmax bounds (handleKeyUp s e)"
| reach_frame:
    "reachable dmax bounds s \<Longrightarrow> 0 \<le> delta \<Longrightarrow> delta \<le> dmax
     \<Longrightarrow> reachable dmax bounds (useFrame bounds s delta applyEuler)"

section \<open>Notions used in the statements\<close>

text \<open>
  The planar distance of a point from the origin, as the frame callback computes it from
  the two horizontal coordinates.
\<close>

definition planar :: "vec3 \<Rightarrow> real" where
  "planar p = sqrt (vec_x p * vec_x p + vec_z p * vec_z p)"

text \<open>No flag is set afterwards that was not set before.\<close>

definition noFlagRaised :: "MoveState \<Rightarrow> MoveState \<Rightarrow> bool" where
  "noFlagRaised before after =
     ((forward after \<longrightarrow> forward before) \<and> (backward after \<longrightarrow> backward before)
      \<and> (left after \<longrightarrow> left before) \<and> (right after \<longrightarrow> right before)
      \<and> (jump after \<longrightarrow> jump before) \<and> (duck after \<longrightarrow> duck before)
      \<and> (slowWalk after \<longrightarrow> slowWalk before))"


text \<open>
  Sample inputs: an active player at rest at a given position with only the forward key
  held, a key event without modifiers, and the camera rotation that leaves every vector as
  it is (the camera looks along the negative Z axis).
\<close>

definition walkState :: "real \<Rightarrow> real \<Rightarrow> real \<Rightarrow> Player" where
  "walkState a b d =
     \<lparr>isLocked = True, moveState = initialMoveState\<lparr>forward := True\<rparr>, velocityY = 0,
      isGrounded = True, camera = Vector3 a b d, fog = Some \<lparr>near = 5, far = 30\<rparr>\<rparr>"

definition pressed :: "string \<Rightarrow> KeyboardEvent" where
  "pressed key = \<lparr>code = key, ctrlKey = False, shiftKey = False\<rparr>"

definition noRotation :: "vec3 \<Rightarrow> vec3" where
  "noRotation v = v"

section \<open>The generator follows the algorithm\<close>

text \<open>
  The generator and the algorithm of the specification are compared sample by sample:
  after \<open>7i\<close> calls the closure holds the \<open>7i\<close>-th iterate, and one pass through the loop
  body produces the object the specification describes for index \<open>i\<close>. The product
  \<open>1664525 * state\<close> stays below \<open>2^53\<close>, so the doubles of the source hold the state
  exactly.
\<close>

lemma lcg_step: "lcg s = (1664525 * s + 1013904223) mod 2 ^ 32"
  by (simp add: lcg_def)

lemma spec_state_Suc: "spec_state (Suc k) = lcg (spec_state k)"
  by (simp add: spec_state_def lcg_step)

lemma rand_spec_state: "rand (spec_state k) = (spec_sample (Suc k), spec_state (Suc k))"
  by (simp add: rand_def spec_sample_def spec_state_Suc)


lemma spec_state_less: "spec_state k < 2 ^ 32"
  by (cases k) (simp_all add: spec_state_def)

lemma lcg_exact: "1664525 * spec_state k + 1013904223 < 2 ^ 53"
  using spec_state_less [of k] by simp

lemma spec_sample_range: "0 \<le> spec_sample k \<and> spec_sample k < 1"
proof -
  have "real (spec_state k) < 2 ^ 32"
    using spec_state_less [of k] by (metis of_nat_less_iff of_nat_numeral of_nat_power)
  then show ?thesis by (simp add: spec_sample_def)
qed

lemma seven_steps:
  "7 * Suc i = Suc (Suc (Suc (Suc (Suc (Suc (Suc (7 * i)))))))"
  "7 * i + 1 = Suc (7 * i)"
  "7 * i + 2 = Suc (Suc (7 * i))"
  "7 * i + 3 = Suc (Suc (Suc (7 * i)))"
  "7 * i + 4 = Suc (Suc (Suc (Suc (7 * i))))"
  "7 * i + 5 = Suc (Suc (Suc (Suc (Suc (7 * i)))))"
  "7 * i + 6 = Suc (Suc (Suc (Suc (Suc (Suc (7 * i))))))"
  "7 * i + 7 = Suc (Suc (Suc (Suc (Suc (Suc (Suc (7 * i)))))))"
  by simp_all

lemma scatter_body_spec:
  "scatter_body count startRadius wallRadius i (spec_state (7 * i)) =
     (spec_object count startRadius wallRadius i, spec_state (7 * Suc i))"
proof -
  have twice: "a * pi * 2 = a * (2 * pi)" for a :: real
    by simp
  show ?thesis
    unfolding scatter_body_def spec_object_def spec_angle_def spec_distance_def
      spec_jitter_def seven_steps twice
    by (simp add: rand_spec_state Let_def Vector3_def)
qed

lemma scatter_loop_spec:
  "i \<le> count \<Longrightarrow>
   scatter_loop count startRadius wallRadius i (spec_state (7 * i)) objects =
     objects @ map (spec_object count startRadius wallRadius) [i..<count]"
proof (induction "count - i" arbitrary: i objects)
  case 0
  then show ?case by simp
next
  case (Suc n)
  then have lt: "i < count" and n: "n = count - Suc i" and le: "Suc i \<le> count" by auto
  have "scatter_loop count startRadius wallRadius i (spec_state (7 * i)) objects =
        scatter_loop count startRadius wallRadius (Suc i) (spec_state (7 * Suc i))
          (objects @ [spec_object count startRadius wallRadius i])"
    using lt by (subst scatter_loop.simps) (simp add: scatter_body_spec)
  also have "\<dots> = (objects @ [spec_object count startRadius wallRadius i])
                   @ map (spec_object count startRadius wallRadius) [Suc i..<count]"
    using Suc.hyps(1) [OF n le] .
  also have "\<dots> = objects @ map (spec_object count startRadius wallRadius) [i..<count]"
    using lt by (simp add: upt_conv_Cons)
  finally show ?case .
qed

lemma generate_refines:
  "generateScatteredObjects count startRadius wallRadius =
     spec_generate count startRadius wallRadius"
proof -
  have "createRng 12345 = spec_state (7 * 0)"
    by (simp add: createRng_def spec_state_def)
  then show ?thesis
    unfolding generateScatteredObjects_def spec_generate_def
    using scatter_loop_spec [of 0 count startRadius wallRadius "[]"] by simp
qed

lemma floor_scaled_range:
  "0 \<le> r \<Longrightarrow> r < 1 \<Longrightarrow> 0 < (n::int) \<Longrightarrow> 0 \<le> \<lfloor>r * real_of_int n\<rfloor> \<and> \<lfloor>r * real_of_int n\<rfloor> < n"
proof -
  assume r: "0 \<le> r" "r < 1" and n: "0 < n"
  have "r * real_of_int n < real_of_int n"
    using r n by simp
  then have "\<lfloor>r * real_of_int n\<rfloor> < n"
    by (simp add: floor_less_iff)
  moreover have "0 \<le> \<lfloor>r * real_of_int n\<rfloor>"
    using r n by simp
  ultimately show ?thesis by simp
qed

lemma int_below_4: "0 \<le> (k::int) \<Longrightarrow> k < 4 \<Longrightarrow> k \<in> {0, 1, 2, 3}"
  by auto

lemma int_below_6: "0 \<le> (k::int) \<Longrightarrow> k < 6 \<Longrightarrow> k \<in> {0, 1, 2, 3, 4, 5}"
  by auto

lemma spec_jitter_range: "0 \<le> spec_jitter i \<and> spec_jitter i < 0.5"
  using spec_sample_range [of "7 * i + 1"] by (simp add: spec_jitter_def)

lemma spec_distance_range:
  assumes "startRadius < wallRadius - 5"
  shows "startRadius \<le> spec_distance startRadius wallRadius i
       \<and> spec_distance startRadius wallRadius i < wallRadius - 5"
proof -
  let ?r = "spec_sample (7 * i + 2)" and ?w = "wallRadius - startRadius - 5"
  have r: "0 \<le> ?r" "?r < 1" using spec_sample_range by simp_all
  have w: "0 < ?w" using assms by simp
  have "0 \<le> ?r * ?w" using r w by simp
  moreover have "?r * ?w < 1 * ?w" using r w by (intro mult_strict_right_mono) simp_all
  ultimately show ?thesis by (simp add: spec_distance_def)
qed

lemma spec_object_ranges:
  "0 \<le> vec_y (so_position (spec_object c s w i)) \<and> vec_y (so_position (spec_object c s w i)) < 5
   \<and> so_type (spec_object c s w i) \<in> {0, 1, 2, 3}
   \<and> 1 \<le> so_size (spec_object c s w i) \<and> so_size (spec_object c s w i) < 4
   \<and> 0 \<le> so_rotation (spec_object c s w i) \<and> so_rotation (spec_object c s w i) < 2 * pi
   \<and> so_colorIndex (spec_object c s w i) \<in> {0, 1, 2, 3, 4, 5}"
proof -
  have t: "0 \<le> \<lfloor>spec_sample (7 * i + 4) * 4\<rfloor> \<and> \<lfloor>spec_sample (7 * i + 4) * 4\<rfloor> < 4"
    using floor_scaled_range [of "spec_sample (7 * i + 4)" 4] spec_sample_range by simp
  have c: "0 \<le> \<lfloor>spec_sample (7 * i + 7) * 6\<rfloor> \<and> \<lfloor>spec_sample (7 * i + 7) * 6\<rfloor> < 6"
    using floor_scaled_range [of "spec_sample (7 * i + 7)" 6] spec_sample_range by simp
  have y: "0 \<le> spec_sample (7 * i + 3) \<and> spec_sample (7 * i + 3) < 1"
    and z: "0 \<le> spec_sample (7 * i + 5) \<and> spec_sample (7 * i + 5) < 1"
    and r: "0 \<le> spec_sample (7 * i + 6) \<and> spec_sample (7 * i + 6) < 1"
    using spec_sample_range by simp_all
  have rot: "spec_sample (7 * i + 6) * (2 * pi) < 1 * (2 * pi)"
    using r by (intro mult_strict_right_mono) simp_all
  have ty: "so_type (spec_object c s w i) \<in> {0, 1, 2, 3}"
    using int_below_4 [of "\<lfloor>spec_sample (7 * i + 4) * 4\<rfloor>"] t by (simp add: spec_object_def)
  have co: "so_colorIndex (spec_object c s w i) \<in> {0, 1, 2, 3, 4, 5}"
    using int_below_6 [of "\<lfloor>spec_sample (7 * i + 7) * 6\<rfloor>"] c by (simp add: spec_object_def)
  show ?thesis
    using y z r rot ty co by (simp add: spec_object_def)
qed

lemma spec_object_planar:
  "vec_x (so_position (spec_object c s w i)) * vec_x (so_position (spec_object c s w i))
   + vec_z (so_position (spec_object c s w i)) * vec_z (so_position (spec_object c s w i))
   = spec_distance s w i * spec_distance s w i"
proof -
  have "(cos a * d) * (cos a * d) + (sin a * d) * (sin a * d) = d * d" for a d :: real
  proof -
    have "(cos a * d) * (cos a * d) + (sin a * d) * (sin a * d)
          = (d * d) * (cos a * cos a) + (d * d) * (sin a * sin a)"
      by simp
    also have "\<dots> = (d * d) * (cos a * cos a + sin a * sin a)"
      by (simp only: distrib_left)
    also have "\<dots> = d * d"
      by (simp only: sin_cos_squared_add3 mult_1_right)
    finally show ?thesis .
  qed
  then show ?thesis by (simp add: spec_object_def)
qed

text \<open>
  Claim C1, as amended. For every count, start radius and wall radius,
  \<open>generateScatteredObjects\<close> returns exactly the sequence of the algorithm: a congruential
  stream \<open>state = (1664525 * state + 1013904223) mod 2^32\<close> from the seed 12345 with
  samples \<open>state / 2^32\<close>, and for each \<open>i < count\<close>, in this order of draws, the angle
  \<open>(i / count) * 2\<pi>\<close> plus a jitter of at most 0.5, the distance
  \<open>startRadius + sample * (wallRadius - startRadius - 5)\<close>, the position
  \<open>(cos angle * distance, Y, sin angle * distance)\<close> with Y in \<open>[0, 5)\<close>, a type in
  \<open>{0, 1, 2, 3}\<close>, a size in \<open>[1, 4)\<close>, a rotation in \<open>[0, 2\<pi>)\<close> and a colour index in
  \<open>{0, ..., 5}\<close>. The distance lies in \<open>[startRadius, wallRadius - 5)\<close> when
  \<open>startRadius < wallRadius - 5\<close>. The result is a function of the three arguments alone:
  every call creates its own stream from the same seed, so two calls with the same
  arguments return the same sequence.
\<close>

theorem generate_follows_algorithm:
  "generateScatteredObjects count startRadius wallRadius
     = spec_generate count startRadius wallRadius
   \<and> length (generateScatteredObjects count startRadius wallRadius) = count
   \<and> (\<forall>i<count.
        0 \<le> spec_jitter i \<and> spec_jitter i \<le> 0.5
        \<and> (startRadius < wallRadius - 5 \<longrightarrow>
             startRadius \<le> spec_distance startRadius wallRadius i
             \<and> spec_distance startRadius wallRadius i < wallRadius - 5)
        \<and> (let obj = generateScatteredObjects count startRadius wallRadius ! i
           in obj = spec_object count startRadius wallRadius i
              \<and> 0 \<le> vec_y (so_position obj) \<and> vec_y (so_position obj) < 5
              \<and> so_type obj \<in> {0, 1, 2, 3}
              \<and> 1 \<le> so_size obj \<and> so_size obj < 4
              \<and> 0 \<le> so_rotation obj \<and> so_rotation obj < 2 * pi
              \<and> so_colorIndex obj \<in> {0, 1, 2, 3, 4, 5}))"
proof (intro conjI allI impI)
  show eq: "generateScatteredObjects count startRadius wallRadius
              = spec_generate count startRadius wallRadius"
    by (rule generate_refines)
  show "length (generateScatteredObjects count startRadius wallRadius) = count"
    by (simp add: eq spec_generate_def)
  fix i assume i: "i < count"
  show "0 \<le> spec_jitter i" "spec_jitter i \<le> 0.5"
    using spec_jitter_range [of i] by simp_all
  show "let obj = generateScatteredObjects count startRadius wallRadius ! i
        in obj = spec_object count startRadius wallRadius i
           \<and> 0 \<le> vec_y (so_position obj) \<and> vec_y (so_position obj) < 5
           \<and> so_type obj \<in> {0, 1, 2, 3}
           \<and> 1 \<le> so_size obj \<and> so_size obj < 4
           \<and> 0 \<le> so_rotation obj \<and> so_rotation obj < 2 * pi
           \<and> so_colorIndex obj \<in> {0, 1, 2, 3, 4, 5}"
    unfolding Let_def eq
    using i spec_object_ranges [of count startRadius wallRadius i]
    by (simp add: spec_generate_def)
next
  fix i assume "i < count" "startRadius < wallRadius - 5"
  then show "startRadius \<le> spec_distance startRadius wallRadius i"
    "spec_distance startRadius wallRadius i < wallRadius - 5"
    using spec_distance_range by simp_all
qed

lemma spec_state_2: "spec_state (Suc (Suc 0)) = 71072467"
proof -
  have s0: "spec_state 0 = 12345"
    by (simp add: spec_state_def)
  have s1: "spec_state (Suc 0) = 87628868"
    by (simp add: spec_state_Suc s0 lcg_def)
  have "spec_state (Suc (Suc 0)) = lcg (spec_state (Suc 0))"
    by (rule spec_state_Suc)
  also have "\<dots> = 71072467"
    by (simp only: s1) (simp add: lcg_def)
  finally show ?thesis .
qed

text \<open>
  The default arguments of the source (60 objects between the radii 5 and 75), at the last
  object.
\<close>

theorem generate_follows_algorithm_witness:
  "generateScatteredObjects 60 5 75 = spec_generate 60 5 75
   \<and> 5 \<le> spec_distance 5 75 59 \<and> spec_distance 5 75 59 < 70
   \<and> so_type (generateScatteredObjects 60 5 75 ! 59) \<in> {0, 1, 2, 3}
   \<and> so_size (generateScatteredObjects 60 5 75 ! 59) < 4"
  using generate_follows_algorithm [of 60 5 75, THEN conjunct2, THEN conjunct2, rule_format, of 59]
    generate_follows_algorithm [of 60 5 75, THEN conjunct1]
  by (auto simp: Let_def)

text \<open>
  Without the condition on the radii the distance leaves the interval: with both radii
  equal to 5 the second sample is \<open>71072467 / 2^32\<close>, the distance is
  \<open>5 - 5 * 71072467 / 2^32\<close>, and the object is placed nearer to the centre than the
  start radius.
\<close>

theorem generate_distance_below_startRadius:
  "vec_x (so_position (generateScatteredObjects 1 5 5 ! 0))
     * vec_x (so_position (generateScatteredObjects 1 5 5 ! 0))
   + vec_z (so_position (generateScatteredObjects 1 5 5 ! 0))
     * vec_z (so_position (generateScatteredObjects 1 5 5 ! 0))
   < 5 * 5"
proof -
  have obj: "generateScatteredObjects 1 5 5 ! 0 = spec_object 1 5 5 0"
    by (simp add: generate_refines spec_generate_def)
  have d: "spec_distance 5 5 0 = 5 - 5 * (71072467 / 4294967296)"
    by (simp add: spec_distance_def spec_sample_def spec_state_2)
  have "spec_distance 5 5 0 * spec_distance 5 5 0 < 5 * 5"
    unfolding d by simp
  then show ?thesis
    unfolding obj spec_object_planar .
qed

section \<open>The shapes of the collision index\<close>

lemma columns_explicit:
  "concat (map columnBounds columnPositions)
     = concat (map (\<lambda>(a, b, d). spec_column_shapes a b d) columnPositions)"
  by (simp add: columnPositions_def columnBounds_def spec_column_shapes_def Vector3_def)

lemma giant_explicit: "giantBounds = spec_statue_shapes"
  by (simp add: giantBounds_def spec_statue_shapes_def giantPos_def Vector3_def)

lemma scatteredBounds_spec:
  "so_type obj \<in> {0, 1, 2, 3} \<Longrightarrow> scatteredBounds obj = [spec_scatter_shape obj]"
  by (auto simp: scatteredBounds_def spec_scatter_shape_def Vector3_def Let_def)

lemma scattered_explicit:
  "\<forall>obj \<in> set objs. so_type obj \<in> {0, 1, 2, 3}
   \<Longrightarrow> concat (map scatteredBounds objs) = map spec_scatter_shape objs"
  by (induction objs) (simp_all add: scatteredBounds_spec)

lemma column_count: "length (concat (map columnBounds columnPositions)) = 18"
  by (simp add: columnPositions_def columnBounds_def)

text \<open>
  Claim C4. The type of a scattered object is one of 0, 1, 2, 3, and the index is built
  from a list of such objects: the list the generator returns, whose objects all have
  such a type. For every list of scattered objects the collision index consists of the
  three shapes of each of the six columns (base box 2 x 1 x 2 centred at \<open>y + 0.5\<close>,
  shaft cylinder of radius 0.8 and height 10 centred at \<open>y + 6\<close>, capital box
  1.8 x 1 x 1.8 centred at \<open>y + 11.5\<close>), the four shapes of the statue at the offset
  \<open>(30, 0, -30)\<close> (torso cylinder of radius 4 and height 12, head sphere of radius 3, two
  arm cylinders of radius 1 and height 10), and one shape for each scattered object, in
  the order of the list: a box \<open>(size, size * 1.5, size)\<close> for type 0, a cylinder of radius
  \<open>size * 0.5\<close> and height \<open>size * 2\<close> for type 1, a sphere of radius \<open>size * 0.7\<close> for
  type 2, a cylinder of radius \<open>size * 0.7\<close> and height \<open>size * 2\<close> for type 3. It has
  \<open>18 + 4 + n\<close> shapes for \<open>n\<close> objects; the index of the list generated for a count
  has \<open>18 + 4 + count\<close> shapes.
\<close>

theorem collision_index_shapes:
  "((\<forall>obj \<in> set objs. so_type obj \<in> {0, 1, 2, 3}) \<longrightarrow>
      generateCollisionBounds objs
        = concat (map (\<lambda>(a, b, d). spec_column_shapes a b d) columnPositions)
          @ spec_statue_shapes @ map spec_scatter_shape objs
      \<and> length (generateCollisionBounds objs) = 18 + 4 + length objs)
   \<and> length columnPositions = 6
   \<and> (\<forall>obj \<in> set (generateScatteredObjects count startRadius wallRadius).
         so_type obj \<in> {0, 1, 2, 3})
   \<and> generateCollisionBounds (generateScatteredObjects count startRadius wallRadius)
        = concat (map (\<lambda>(a, b, d). spec_column_shapes a b d) columnPositions)
          @ spec_statue_shapes
          @ map spec_scatter_shape (generateScatteredObjects count startRadius wallRadius)
   \<and> length (generateCollisionBounds (generateScatteredObjects count startRadius wallRadius))
        = 18 + 4 + count"
proof -
  have shapes: "generateCollisionBounds xs
           = concat (map (\<lambda>(a, b, d). spec_column_shapes a b d) columnPositions)
             @ spec_statue_shapes @ map spec_scatter_shape xs"
    if "\<forall>obj \<in> set xs. so_type obj \<in> {0, 1, 2, 3}" for xs
    unfolding generateCollisionBounds_def
    by (simp only: columns_explicit giant_explicit scattered_explicit [OF that])
  have count: "length (generateCollisionBounds xs) = 18 + 4 + length xs"
    if "\<forall>obj \<in> set xs. so_type obj \<in> {0, 1, 2, 3}" for xs
    unfolding generateCollisionBounds_def
    by (simp add: column_count scattered_explicit [OF that] giantBounds_def)
  have types: "\<forall>obj \<in> set (generateScatteredObjects count startRadius wallRadius).
         so_type obj \<in> {0, 1, 2, 3}"
    unfolding generate_refines
    using spec_object_ranges [of count startRadius wallRadius]
    by (auto simp: spec_generate_def)
  have len: "length (generateScatteredObjects count startRadius wallRadius) = count"
    by (simp add: generate_refines spec_generate_def)
  have six: "length columnPositions = 6"
    by (simp add: columnPositions_def)
  show ?thesis
    using shapes [of objs] count [of objs] six types shapes [OF types] count [OF types]
    unfolding len by blast
qed

text \<open>
  A single cone of size 2 at \<open>(10, 0, 10)\<close>: its cylinder is the last of 23 shapes. The
  index of the component, built from the sixty generated objects, has 82 shapes.
\<close>

theorem collision_index_shapes_witness:
  "generateCollisionBounds
     [\<lparr>so_position = Vector3 10 0 10, so_type = 3, so_size = 2, so_rotation = 0,
       so_colorIndex = 0, so_key = ''obj-0''\<rparr>] ! 22
   = \<lparr>cb_type = Cylinder, cb_position = \<lparr>vec_x = 10, vec_y = 2, vec_z = 10\<rparr>,
      cb_size = \<lparr>vec_x = 7 / 5, vec_y = 4, vec_z = 0\<rparr>\<rparr>
   \<and> length (generateCollisionBounds
     [\<lparr>so_position = Vector3 10 0 10, so_type = 3, so_size = 2, so_rotation = 0,
       so_colorIndex = 0, so_key = ''obj-0''\<rparr>]) = 23
   \<and> length staticCollisionBounds = 82"
proof -
  let ?objs = "[\<lparr>so_position = Vector3 10 0 10, so_type = 3, so_size = 2, so_rotation = 0,
       so_colorIndex = 0, so_key = ''obj-0''\<rparr>]"
  note index = collision_index_shapes [of ?objs 60 5 75]
  have types: "\<forall>obj \<in> set ?objs. so_type obj \<in> {0, 1, 2, 3}"
    by simp
  from index types have shapes: "generateCollisionBounds ?objs
        = concat (map (\<lambda>(a, b, d). spec_column_shapes a b d) columnPositions)
          @ spec_statue_shapes @ map spec_scatter_shape ?objs"
    and count: "length (generateCollisionBounds ?objs) = 18 + 4 + length ?objs"
    by blast+
  from index have scene:
    "length (generateCollisionBounds (generateScatteredObjects 60 5 75)) = 18 + 4 + 60"
    by blast
  have "generateCollisionBounds ?objs ! 22
      = \<lparr>cb_type = Cylinder, cb_position = \<lparr>vec_x = 10, vec_y = 2, vec_z = 10\<rparr>,
         cb_size = \<lparr>vec_x = 7 / 5, vec_y = 4, vec_z = 0\<rparr>\<rparr>"
    unfolding shapes
    by (simp add: columnPositions_def spec_column_shapes_def spec_statue_shapes_def
        spec_scatter_shape_def Vector3_def)
  moreover have "length (generateCollisionBounds ?objs) = 23"
    using count by simp
  moreover have "length staticCollisionBounds = 82"
    using scene by (simp add: staticCollisionBounds_def scatteredObjects_def)
  ultimately show ?thesis by blast
qed

section \<open>Facts about the handlers and the frame callback\<close>

text \<open>
  The components of the state after a frame in terms of the three blocks of the callback,
  the two branches of the wall test, the fog, and what the handlers leave unchanged.
\<close>

lemma KEYS_Space: "KEYS ''Space'' = Some Jump"
  by (simp add: KEYS_def)

lemma KEYS_Jump_iff: "KEYS k = Some Jump \<longleftrightarrow> k = ''Space''"
  by (simp add: KEYS_def)

lemma keydown_unlocked: "\<not> isLocked s \<Longrightarrow> handleKeyDown s e = s"
  by (simp add: handleKeyDown_def)

lemma keydown_jump_flag: "jump (moveState (handleKeyDown s e)) = jump (moveState s)"
proof (cases "KEYS (code e)")
  case None
  then show ?thesis by (simp add: handleKeyDown_def Let_def)
next
  case (Some name)
  show ?thesis
  proof (cases "code e = ''Space''")
    case True
    then show ?thesis by (simp add: handleKeyDown_def Let_def KEYS_Space)
  next
    case False
    then have "name \<noteq> Jump" using Some KEYS_Jump_iff by auto
    then show ?thesis using Some False
      by (cases name) (simp_all add: handleKeyDown_def Let_def)
  qed
qed

lemma keyup_jump_flag: "jump (moveState (handleKeyUp s e)) = jump (moveState s)"
proof (cases "KEYS (code e)")
  case None
  then show ?thesis by (simp add: handleKeyUp_def Let_def)
next
  case (Some name)
  show ?thesis
  proof (cases "code e = ''Space''")
    case True
    then show ?thesis by (simp add: handleKeyUp_def Let_def KEYS_Space)
  next
    case False
    then have "name \<noteq> Jump" using Some KEYS_Jump_iff by auto
    then show ?thesis using Some False
      by (cases name) (simp_all add: handleKeyUp_def Let_def)
  qed
qed

lemma keyup_clears: "noFlagRaised (moveState s) (moveState (handleKeyUp s e))"
proof (cases "KEYS (code e)")
  case None
  then show ?thesis by (simp add: handleKeyUp_def Let_def noFlagRaised_def)
next
  case (Some name)
  then show ?thesis
    by (cases name) (simp_all add: handleKeyUp_def Let_def noFlagRaised_def)
qed

lemma frame_moveState: "moveState (useFrame b s delta rot) = moveState s"
  by (simp add: useFrame_def Let_def split: prod.splits)

lemma frame_unlocked: "\<not> isLocked s \<Longrightarrow> useFrame b s delta rot = s"
  by (simp add: useFrame_def)

lemma reachable_jump_flag: "reachable dmax b s \<Longrightarrow> \<not> jump (moveState s)"
proof (induction rule: reachable.induct)
  case reach_init
  show ?case by (simp add: initialPlayer_def initialMoveState_def)
next
  case (reach_lock s b)
  then show ?case by (simp add: setLocked_def)
next
  case (reach_down s e)
  then show ?case by (simp add: keydown_jump_flag)
next
  case (reach_up s e)
  then show ?case by (simp add: keyup_jump_flag)
next
  case (reach_frame s delta applyEuler)
  then show ?case by (simp add: frame_moveState)
qed

lemma frame_locked:
  assumes "isLocked s" and "candidate s delta rot = (newX, newZ)"
  shows "velocityY (useFrame b s delta rot) = fst (vertical s delta)"
    and "isGrounded (useFrame b s delta rot) = fst (snd (vertical s delta))"
    and "vec_y (camera (useFrame b s delta rot)) = snd (snd (vertical s delta))"
    and "vec_x (camera (useFrame b s delta rot)) = fst (horizontal b s newX newZ)"
    and "vec_z (camera (useFrame b s delta rot)) = snd (horizontal b s newX newZ)"
    and "fog (useFrame b s delta rot)
           = updateFog (fog s) (fst (horizontal b s newX newZ)) (snd (horizontal b s newX newZ))"
    and "moveState (useFrame b s delta rot) = moveState s"
    and "isLocked (useFrame b s delta rot)"
  using assms by (simp_all add: useFrame_def Vector3_def split: prod.splits)

lemma on_circle:
  "sqrt ((cos a * r) * (cos a * r) + (sin a * r) * (sin a * r)) = \<bar>r\<bar>"
proof -
  have "(cos a * r) * (cos a * r) + (sin a * r) * (sin a * r)
          = (r * r) * (cos a * cos a) + (r * r) * (sin a * sin a)"
    by simp
  also have "\<dots> = (r * r) * (cos a * cos a + sin a * sin a)"
    by (simp only: distrib_left)
  also have "\<dots> = r * r"
    by (simp only: sin_cos_squared_add3 mult_1_right)
  finally show ?thesis by simp
qed

text \<open>
  \<open>atan2\<close> is the polar angle: a point is its distance from the origin times the cosine
  and sine of the angle.
\<close>

lemma hyp_pos:
  fixes a b :: real
  assumes "0 < a"
  shows "sqrt (a * a + b * b) = a * sqrt (1 + (b / a)\<^sup>2)"
proof -
  have "a * a + b * b = (a * a) * (1 + (b / a)\<^sup>2)"
    using assms by (simp add: power2_eq_square field_simps)
  then have "sqrt (a * a + b * b) = sqrt (a * a) * sqrt (1 + (b / a)\<^sup>2)"
    by (simp only: real_sqrt_mult)
  then show ?thesis using assms by simp
qed

lemma hyp_neg:
  fixes a b :: real
  assumes "a < 0"
  shows "sqrt (a * a + b * b) = - a * sqrt (1 + (b / a)\<^sup>2)"
  using hyp_pos [of "- a" "- b"] assms by simp

lemma root_pos: "0 < sqrt (1 + (x::real)\<^sup>2)"
  by (simp add: add_pos_nonneg)

lemma atan2_polar:
  "cos (atan2 b a) * sqrt (a * a + b * b) = a
   \<and> sin (atan2 b a) * sqrt (a * a + b * b) = b
   \<and> - pi < atan2 b a \<and> atan2 b a \<le> pi"
proof -
  note lb = arctan_lbound [of "b / a"] and ub = arctan_ubound [of "b / a"]
  have r: "sqrt (1 + (b / a)\<^sup>2) \<noteq> 0" using root_pos [of "b / a"] by simp
  consider (right) "0 < a" | (upper) "a < 0" "0 \<le> b" | (lower) "a < 0" "b < 0"
    | (up) "a = 0" "0 < b" | (down) "a = 0" "b < 0" | (zero) "a = 0" "b = 0"
    by linarith
  then show ?thesis
  proof cases
    case right
    have "cos (atan2 b a) * sqrt (a * a + b * b) = a
        \<and> sin (atan2 b a) * sqrt (a * a + b * b) = b"
      using right r by (simp add: atan2_def cos_arctan sin_arctan hyp_pos)
    moreover have "atan2 b a = arctan (b / a)"
      using right by (simp add: atan2_def)
    then have "- pi < atan2 b a \<and> atan2 b a \<le> pi"
      using lb ub pi_gt_zero by linarith
    ultimately show ?thesis by blast
  next
    case upper
    have "b / a \<le> 0" using upper by (simp add: divide_nonneg_neg)
    then have le: "arctan (b / a) \<le> 0" by simp
    have "cos (atan2 b a) * sqrt (a * a + b * b) = a
        \<and> sin (atan2 b a) * sqrt (a * a + b * b) = b"
      using upper r by (simp add: atan2_def cos_arctan sin_arctan hyp_neg)
    moreover have "atan2 b a = arctan (b / a) + pi"
      using upper by (simp add: atan2_def)
    then have "- pi < atan2 b a \<and> atan2 b a \<le> pi"
      using lb le pi_gt_zero by linarith
    ultimately show ?thesis by blast
  next
    case lower
    have "0 < b / a" using lower by (simp add: divide_neg_neg)
    then have gt: "0 < arctan (b / a)" by simp
    have "cos (atan2 b a) * sqrt (a * a + b * b) = a
        \<and> sin (atan2 b a) * sqrt (a * a + b * b) = b"
      using lower r by (simp add: atan2_def cos_arctan sin_arctan hyp_neg)
    moreover have "atan2 b a = arctan (b / a) - pi"
      using lower by (simp add: atan2_def)
    then have "- pi < atan2 b a \<and> atan2 b a \<le> pi"
      using ub gt pi_gt_zero by linarith
    ultimately show ?thesis by blast
  next
    case up
    then show ?thesis by (simp add: atan2_def)
  next
    case down
    have "- (pi / 2) \<le> pi" using pi_gt_zero by linarith
    then show ?thesis using down by (simp add: atan2_def)
  next
    case zero
    then show ?thesis by (simp add: atan2_def)
  qed
qed

lemma horizontal_wall:
  "WALL_RADIUS \<le> sqrt (newX * newX + newZ * newZ) \<Longrightarrow>
   horizontal b s newX newZ
     = (cos (atan2 newZ newX) * WALL_RADIUS, sin (atan2 newZ newX) * WALL_RADIUS)"
  by (simp add: horizontal_def Let_def)

lemma horizontal_inside:
  "\<not> WALL_RADIUS \<le> sqrt (newX * newX + newZ * newZ) \<Longrightarrow>
   horizontal b s newX newZ
     = (if checkCollision b
             (Vector3 newX (if duck (moveState s) then DUCK_HEIGHT else GROUND_HEIGHT) newZ)
             (if duck (moveState s) then DUCK_HEIGHT else GROUND_HEIGHT)
        then (vec_x (camera s), vec_z (camera s)) else (newX, newZ))"
  by (simp add: horizontal_def Let_def)

lemma horizontal_contained:
  assumes "planar (camera s) \<le> WALL_RADIUS"
  shows "sqrt (fst (horizontal b s newX newZ) * fst (horizontal b s newX newZ)
             + snd (horizontal b s newX newZ) * snd (horizontal b s newX newZ)) \<le> WALL_RADIUS"
proof (cases "WALL_RADIUS \<le> sqrt (newX * newX + newZ * newZ)")
  case True
  show ?thesis
    unfolding horizontal_wall [OF True] fst_conv snd_conv on_circle
    by (simp add: WALL_RADIUS_def)
next
  case False
  then show ?thesis
    using assms by (simp add: horizontal_inside planar_def)
qed

lemma frame_contained:
  assumes "planar (camera s) \<le> WALL_RADIUS"
  shows "planar (camera (useFrame b s delta rot)) \<le> WALL_RADIUS"
proof (cases "isLocked s")
  case False
  then show ?thesis using assms by (simp add: useFrame_def)
next
  case True
  obtain newX newZ where c: "candidate s delta rot = (newX, newZ)"
    by (cases "candidate s delta rot")
  show ?thesis
    unfolding planar_def frame_locked(4,5) [OF True c]
    by (rule horizontal_contained [OF assms])
qed

lemma frame_on_wall:
  assumes "isLocked s" and "candidate s delta rot = (newX, newZ)"
    and "WALL_RADIUS \<le> sqrt (newX * newX + newZ * newZ)"
  shows "planar (camera (useFrame b s delta rot)) = WALL_RADIUS"
  unfolding planar_def frame_locked(4,5) [OF assms(1,2)] horizontal_wall [OF assms(3)]
    fst_conv snd_conv on_circle
  by (simp add: WALL_RADIUS_def)

lemma keydown_camera: "camera (handleKeyDown s e) = camera s"
  by (cases "KEYS (code e)") (simp_all add: handleKeyDown_def Let_def)

lemma keyup_camera: "camera (handleKeyUp s e) = camera s"
  by (cases "KEYS (code e)") (simp_all add: handleKeyUp_def Let_def)

lemma reachable_contained: "reachable dmax b s \<Longrightarrow> planar (camera s) \<le> WALL_RADIUS"
proof (induction rule: reachable.induct)
  case reach_init
  have "sqrt (10 * 10) \<le> (75::real)" by simp
  then show ?case
    by (simp add: initialPlayer_def planar_def Vector3_def WALL_RADIUS_def)
next
  case (reach_lock s b)
  then show ?case by (simp add: setLocked_def)
next
  case (reach_down s e)
  then show ?case by (simp add: keydown_camera)
next
  case (reach_up s e)
  then show ?case by (simp add: keyup_camera)
next
  case (reach_frame s delta applyEuler)
  then show ?case by (simp add: frame_contained)
qed

lemma fogIntensity_clamp:
  "fogIntensity d = max 0 (min 1 ((d - 25) / (100 - 25)))"
  by (simp add: fogIntensity_def constants)

lemma fogIntensity_mono: "d1 \<le> d2 \<Longrightarrow> fogIntensity d1 \<le> fogIntensity d2"
  by (simp add: fogIntensity_clamp max_def min_def divide_right_mono)

lemma fogIntensity_low: "d \<le> 25 \<Longrightarrow> fogIntensity d = 0"
  by (simp add: fogIntensity_clamp max_def min_def)

lemma fogIntensity_high: "100 \<le> d \<Longrightarrow> fogIntensity d = 1"
  by (simp add: fogIntensity_clamp max_def min_def)

lemma updateFog_Some:
  "updateFog (Some f) cx cz
     = Some \<lparr>near = 5 + fogIntensity (sqrt (cx * cx + cz * cz)) * 15,
             far = 30 + fogIntensity (sqrt (cx * cx + cz * cz)) * 40\<rparr>"
  by (simp add: updateFog_def distanceTo_def CENTER_def Vector3_def Let_def)

lemma keydown_fog: "fog (handleKeyDown s e) = fog s"
  by (cases "KEYS (code e)") (simp_all add: handleKeyDown_def Let_def)

lemma keyup_fog: "fog (handleKeyUp s e) = fog s"
  by (cases "KEYS (code e)") (simp_all add: handleKeyUp_def Let_def)

lemma frame_fog_present: "fog s \<noteq> None \<Longrightarrow> fog (useFrame b s delta rot) \<noteq> None"
  by (auto simp: useFrame_def updateFog_def Let_def split: prod.splits)

lemma reachable_fog: "reachable dmax b s \<Longrightarrow> fog s \<noteq> None"
proof (induction rule: reachable.induct)
  case reach_init
  show ?case by (simp add: initialPlayer_def)
next
  case (reach_lock s b)
  then show ?case by (simp add: setLocked_def)
next
  case (reach_down s e)
  then show ?case by (simp add: keydown_fog)
next
  case (reach_up s e)
  then show ?case by (simp add: keyup_fog)
next
  case (reach_frame s delta applyEuler)
  then show ?case by (simp add: frame_fog_present)
qed

lemma vertical_airborne:
  "GROUND_HEIGHT < vec_y (camera s) + (velocityY s + GRAVITY * delta) * delta \<Longrightarrow>
   vertical s delta
     = (velocityY s + GRAVITY * delta, False,
        vec_y (camera s) + (velocityY s + GRAVITY * delta) * delta)"
  by (simp add: vertical_def Let_def)

lemma vertical_grounded:
  "vec_y (camera s) + (velocityY s + GRAVITY * delta) * delta \<le> GROUND_HEIGHT \<Longrightarrow>
   vertical s delta
     = (if velocityY s + GRAVITY * delta < 0 then 0 else velocityY s + GRAVITY * delta,
        True,
        if duck (moveState s) then
          (if vec_y (camera s) + (velocityY s + GRAVITY * delta) * delta > DUCK_HEIGHT
           then max DUCK_HEIGHT
                  (vec_y (camera s) + (velocityY s + GRAVITY * delta) * delta - 15 * delta)
           else DUCK_HEIGHT)
        else
          (if vec_y (camera s) + (velocityY s + GRAVITY * delta) * delta < GROUND_HEIGHT
           then min GROUND_HEIGHT
                  (vec_y (camera s) + (velocityY s + GRAVITY * delta) * delta + 15 * delta)
           else GROUND_HEIGHT))"
  by (simp add: vertical_def Let_def)

subsection \<open>The invariant of height and velocity\<close>











subsection \<open>Evaluation at sample inputs\<close>

lemma sqrt_less_pos: "0 < r \<Longrightarrow> sqrt a < r \<longleftrightarrow> a < r * r"
proof -
  assume r: "0 < r"
  have "sqrt a < r \<longleftrightarrow> sqrt a < sqrt (r * r)" using r by simp
  also have "\<dots> \<longleftrightarrow> a < r * r" by (rule real_sqrt_less_iff)
  finally show ?thesis .
qed

lemma sqrt_scaled_less:
  "0 < k \<Longrightarrow> 0 < r \<Longrightarrow> sqrt a * k < r \<longleftrightarrow> a * (k * k) < r * r"
proof -
  assume k: "0 < k" and r: "0 < r"
  have "sqrt a * k = sqrt (a * (k * k))"
    using k by (simp add: real_sqrt_mult)
  then show ?thesis using sqrt_less_pos [OF r] by simp
qed

lemma sqrt_ge_pos: "0 < r \<Longrightarrow> r \<le> sqrt a \<longleftrightarrow> r * r \<le> a"
  using sqrt_less_pos [of r a] by auto

lemma candidate_walk:
  "candidate (walkState a b d) delta noRotation = (a, d - 10 * delta)"
  by (simp add: candidate_def noRotation_def walkState_def initialMoveState_def Let_def Number_def
      subVectors_def normalize_def multiplyScalar_def vec_length_def Vector3_def constants)

lemma index_none:
  "generateCollisionBounds [] =
     concat (map (\<lambda>(a, b, d). spec_column_shapes a b d) columnPositions) @ spec_statue_shapes"
  by (simp add: generateCollisionBounds_def columnPositions_def columnBounds_def
      spec_column_shapes_def giantBounds_def spec_statue_shapes_def giantPos_def Vector3_def)

lemma standing_free:
  "\<not> checkCollision (generateCollisionBounds []) (Vector3 (- (33 / 5)) 2 (- 5)) 2"
  unfolding index_none
  by (simp add: checkCollision_def columnPositions_def spec_column_shapes_def
      spec_statue_shapes_def boundHit_def distanceTo_def Vector3_def Let_def PLAYER_RADIUS_def
      sqrt_less_pos sqrt_scaled_less)

lemma crouched_hit:
  "checkCollision (generateCollisionBounds []) (Vector3 (- (33 / 5)) (287 / 250) (- 5)) 2"
  unfolding index_none
  by (simp add: checkCollision_def columnPositions_def spec_column_shapes_def
      spec_statue_shapes_def boundHit_def Vector3_def Let_def PLAYER_RADIUS_def)

subsection \<open>The scene beside the first column\<close>

text \<open>
  The test position \<open>(-6.6, 2, -5)\<close> is free in the scene of the component. A scattered
  shape that is hit has its centre within \<open>\<surd>12.5\<close> of the player in the plane, whatever
  its type, since sizes are below 4. Of the sixty objects, those with index up to 22, and
  the objects 25 and 26, have a non-negative Z coordinate and are at least 5 away; those
  with index from 45 have a non-negative X coordinate and are at least 6.6 away; the others
  are at distance at least 12 from the centre, the test position at less than 8.3. The
  generator states that decide this are computed seven steps at a time.
\<close>

lemma spec_state_seven:
  "spec_state (k + 7) = lcg (lcg (lcg (lcg (lcg (lcg (lcg (spec_state k)))))))"
proof -
  have "k + 7 = Suc (Suc (Suc (Suc (Suc (Suc (Suc k))))))" by simp
  then show ?thesis by (simp only: spec_state_Suc)
qed

lemma spec_state_six:
  "spec_state (k + 6) = lcg (lcg (lcg (lcg (lcg (lcg (spec_state k))))))"
proof -
  have "k + 6 = Suc (Suc (Suc (Suc (Suc (Suc k)))))" by simp
  then show ?thesis by (simp only: spec_state_Suc)
qed

lemma distance_states:
  "spec_state 2 = 71072467"
  "spec_state 9 = 2560230508"
  "spec_state 16 = 1976948425"
  "spec_state 23 = 1816322682"
  "spec_state 30 = 3662258255"
  "spec_state 37 = 66423384"
  "spec_state 44 = 2821642469"
  "spec_state 51 = 1424954246"
  "spec_state 58 = 2885633547"
  "spec_state 65 = 2942822788"
  "spec_state 72 = 1735446849"
  "spec_state 79 = 3493243858"
  "spec_state 86 = 3952601095"
  "spec_state 93 = 482348528"
  "spec_state 100 = 1617615837"
  "spec_state 107 = 388740958"
  "spec_state 114 = 880689731"
  "spec_state 121 = 1511400348"
  "spec_state 128 = 3994178745"
  "spec_state 135 = 4197941802"
  "spec_state 142 = 1523142847"
  "spec_state 149 = 3652687496"
  "spec_state 156 = 1973344213"
  "spec_state 163 = 2485557302"
  "spec_state 170 = 1526222715"
  "spec_state 177 = 55775924"
  "spec_state 184 = 417743153"
  "spec_state 191 = 1148503426"
  "spec_state 198 = 2783885943"
  "spec_state 205 = 1784972320"
  "spec_state 212 = 3673730253"
  "spec_state 219 = 4242085390"
  "spec_state 226 = 2234535347"
  "spec_state 233 = 3588298444"
  "spec_state 240 = 2466018985"
  "spec_state 247 = 772920794"
  "spec_state 254 = 2472346927"
  "spec_state 261 = 2233677496"
  "spec_state 268 = 1229601477"
  "spec_state 275 = 3757084902"
  "spec_state 282 = 2230131947"
  "spec_state 289 = 1578536932"
  "spec_state 296 = 3670594849"
  "spec_state 303 = 3232109362"
  "spec_state 310 = 3173847271"
proof -
  show s2: "spec_state 2 = 71072467"
    using spec_state_2 by (simp only: numeral_2_eq_2)
  show s9: "spec_state 9 = 2560230508"
    using spec_state_seven [of 2] by (simp add: s2 lcg_def)
  show s16: "spec_state 16 = 1976948425"
    using spec_state_seven [of 9] by (simp add: s9 lcg_def)
  show s23: "spec_state 23 = 1816322682"
    using spec_state_seven [of 16] by (simp add: s16 lcg_def)
  show s30: "spec_state 30 = 3662258255"
    using spec_state_seven [of 23] by (simp add: s23 lcg_def)
  show s37: "spec_state 37 = 66423384"
    using spec_state_seven [of 30] by (simp add: s30 lcg_def)
  show s44: "spec_state 44 = 2821642469"
    using spec_state_seven [of 37] by (simp add: s37 lcg_def)
  show s51: "spec_state 51 = 1424954246"
    using spec_state_seven [of 44] by (simp add: s44 lcg_def)
  show s58: "spec_state 58 = 2885633547"
    using spec_state_seven [of 51] by (simp add: s51 lcg_def)
  show s65: "spec_state 65 = 2942822788"
    using spec_state_seven [of 58] by (simp add: s58 lcg_def)
  show s72: "spec_state 72 = 1735446849"
    using spec_state_seven [of 65] by (simp add: s65 lcg_def)
  show s79: "spec_state 79 = 3493243858"
    using spec_state_seven [of 72] by (simp add: s72 lcg_def)
  show s86: "spec_state 86 = 3952601095"
    using spec_state_seven [of 79] by (simp add: s79 lcg_def)
  show s93: "spec_state 93 = 482348528"
    using spec_state_seven [of 86] by (simp add: s86 lcg_def)
  show s100: "spec_state 100 = 1617615837"
    using spec_state_seven [of 93] by (simp add: s93 lcg_def)
  show s107: "spec_state 107 = 388740958"
    using spec_state_seven [of 100] by (simp add: s100 lcg_def)
  show s114: "spec_state 114 = 880689731"
    using spec_state_seven [of 107] by (simp add: s107 lcg_def)
  show s121: "spec_state 121 = 1511400348"
    using spec_state_seven [of 114] by (simp add: s114 lcg_def)
  show s128: "spec_state 128 = 3994178745"
    using spec_state_seven [of 121] by (simp add: s121 lcg_def)
  show s135: "spec_state 135 = 4197941802"
    using spec_state_seven [of 128] by (simp add: s128 lcg_def)
  show s142: "spec_state 142 = 1523142847"
    using spec_state_seven [of 135] by (simp add: s135 lcg_def)
  show s149: "spec_state 149 = 3652687496"
    using spec_state_seven [of 142] by (simp add: s142 lcg_def)
  show s156: "spec_state 156 = 1973344213"
    using spec_state_seven [of 149] by (simp add: s149 lcg_def)
  show s163: "spec_state 163 = 2485557302"
    using spec_state_seven [of 156] by (simp add: s156 lcg_def)
  show s170: "spec_state 170 = 1526222715"
    using spec_state_seven [of 163] by (simp add: s163 lcg_def)
  show s177: "spec_state 177 = 55775924"
    using spec_state_seven [of 170] by (simp add: s170 lcg_def)
  show s184: "spec_state 184 = 417743153"
    using spec_state_seven [of 177] by (simp add: s177 lcg_def)
  show s191: "spec_state 191 = 1148503426"
    using spec_state_seven [of 184] by (simp add: s184 lcg_def)
  show s198: "spec_state 198 = 2783885943"
    using spec_state_seven [of 191] by (simp add: s191 lcg_def)
  show s205: "spec_state 205 = 1784972320"
    using spec_state_seven [of 198] by (simp add: s198 lcg_def)
  show s212: "spec_state 212 = 3673730253"
    using spec_state_seven [of 205] by (simp add: s205 lcg_def)
  show s219: "spec_state 219 = 4242085390"
    using spec_state_seven [of 212] by (simp add: s212 lcg_def)
  show s226: "spec_state 226 = 2234535347"
    using spec_state_seven [of 219] by (simp add: s219 lcg_def)
  show s233: "spec_state 233 = 3588298444"
    using spec_state_seven [of 226] by (simp add: s226 lcg_def)
  show s240: "spec_state 240 = 2466018985"
    using spec_state_seven [of 233] by (simp add: s233 lcg_def)
  show s247: "spec_state 247 = 772920794"
    using spec_state_seven [of 240] by (simp add: s240 lcg_def)
  show s254: "spec_state 254 = 2472346927"
    using spec_state_seven [of 247] by (simp add: s247 lcg_def)
  show s261: "spec_state 261 = 2233677496"
    using spec_state_seven [of 254] by (simp add: s254 lcg_def)
  show s268: "spec_state 268 = 1229601477"
    using spec_state_seven [of 261] by (simp add: s261 lcg_def)
  show s275: "spec_state 275 = 3757084902"
    using spec_state_seven [of 268] by (simp add: s268 lcg_def)
  show s282: "spec_state 282 = 2230131947"
    using spec_state_seven [of 275] by (simp add: s275 lcg_def)
  show s289: "spec_state 289 = 1578536932"
    using spec_state_seven [of 282] by (simp add: s282 lcg_def)
  show s296: "spec_state 296 = 3670594849"
    using spec_state_seven [of 289] by (simp add: s289 lcg_def)
  show s303: "spec_state 303 = 3232109362"
    using spec_state_seven [of 296] by (simp add: s296 lcg_def)
  show s310: "spec_state 310 = 3173847271"
    using spec_state_seven [of 303] by (simp add: s303 lcg_def)
qed

lemma jitter_states:
  "spec_state 176 = 951145577"
  "spec_state 183 = 508498586"
  using spec_state_six [of 170] spec_state_six [of 177]
  by (simp_all add: distance_states lcg_def)

lemma collisionLoop_append:
  "collisionLoop (as @ bs) pos pb pt
     \<longleftrightarrow> collisionLoop as pos pb pt \<or> collisionLoop bs pos pb pt"
  by (induction as) simp_all

lemma collisionLoop_iff:
  "collisionLoop bs pos pb pt \<longleftrightarrow> (\<exists>b \<in> set bs. boundHit pos pb pt b)"
  by (induction bs) auto

lemma square_less_quarter:
  fixes a :: real
  assumes "a * a < 1 / 4"
  shows "\<bar>a\<bar> < 1 / 2"
proof (rule ccontr)
  assume "\<not> \<bar>a\<bar> < 1 / 2"
  then have "1 / 2 \<le> \<bar>a\<bar>" by simp
  then have "(1 / 2) * (1 / 2) \<le> \<bar>a\<bar> * \<bar>a\<bar>"
    by (intro mult_mono) simp_all
  then show False using assms by simp
qed

lemma square_bound:
  fixes a r :: real
  assumes "\<bar>a\<bar> < r"
  shows "a * a < r * r"
proof -
  have "\<bar>a\<bar> * \<bar>a\<bar> < r * r"
    using assms by (intro mult_strict_mono') simp_all
  then show ?thesis by simp
qed

lemma clamp_near:
  fixes p c h :: real
  assumes "0 \<le> h" and "\<bar>p - max (c - h) (min p (c + h))\<bar> < 1 / 2"
  shows "\<bar>p - c\<bar> < h + 1 / 2"
  using assms by (auto simp: max_def min_def abs_if split: if_splits)

lemma scatter_reach:
  assumes sz: "1 \<le> so_size obj" "so_size obj < 4"
    and hit: "boundHit pos pb pt (spec_scatter_shape obj)"
  shows "(vec_x pos - vec_x (so_position obj)) * (vec_x pos - vec_x (so_position obj))
       + (vec_z pos - vec_z (so_position obj)) * (vec_z pos - vec_z (so_position obj))
       < 25 / 2"
proof -
  define dx dz where "dx = vec_x pos - vec_x (so_position obj)"
    and "dz = vec_z pos - vec_z (so_position obj)"
  define s where "s = so_size obj"
  have s: "1 \<le> s" "s < 4" using sz by (simp_all add: s_def)
  consider (box) "so_type obj = 0" | (cyl) "so_type obj \<noteq> 0" "so_type obj = 1"
    | (sph) "so_type obj \<noteq> 0" "so_type obj \<noteq> 1" "so_type obj = 2"
    | (cone) "so_type obj \<noteq> 0" "so_type obj \<noteq> 1" "so_type obj \<noteq> 2"
    by blast
  then have "dx * dx + dz * dz < 25 / 2"
  proof cases
    case box
    define ex where "ex = vec_x pos - max (vec_x (so_position obj) - s / 2)
                                        (min (vec_x pos) (vec_x (so_position obj) + s / 2))"
    define ez where "ez = vec_z pos - max (vec_z (so_position obj) - s / 2)
                                        (min (vec_z pos) (vec_z (so_position obj) + s / 2))"
    obtain ey where "ex * ex + ey * ey + ez * ez < 1 / 4"
      using hit box
      by (simp add: boundHit_def spec_scatter_shape_def Let_def PLAYER_RADIUS_def
          ex_def ez_def s_def)
    moreover have "0 \<le> ey * ey" "0 \<le> ex * ex" "0 \<le> ez * ez" by simp_all
    ultimately have ex2: "ex * ex < 1 / 4" and ez2: "ez * ez < 1 / 4" by linarith+
    have "\<bar>ex\<bar> < 1 / 2" "\<bar>ez\<bar> < 1 / 2"
      by (rule square_less_quarter [OF ex2], rule square_less_quarter [OF ez2])
    then have "\<bar>dx\<bar> < s / 2 + 1 / 2" "\<bar>dz\<bar> < s / 2 + 1 / 2"
      using s clamp_near [of "s / 2" "vec_x pos" "vec_x (so_position obj)"]
        clamp_near [of "s / 2" "vec_z pos" "vec_z (so_position obj)"]
      by (simp_all add: ex_def ez_def dx_def dz_def)
    then have "\<bar>dx\<bar> < 5 / 2" "\<bar>dz\<bar> < 5 / 2" using s by simp_all
    then have "dx * dx < (5 / 2) * (5 / 2)" "dz * dz < (5 / 2) * (5 / 2)"
      by (simp_all only: square_bound)
    then show ?thesis by simp
  next
    case cyl
    then have "sqrt (dx * dx + dz * dz) < 1 / 2 + s * (1 / 2)"
      using hit
      by (simp add: boundHit_def spec_scatter_shape_def Let_def PLAYER_RADIUS_def
          dx_def dz_def s_def)
    then have "sqrt (dx * dx + dz * dz) < 5 / 2" using s by simp
    then have "dx * dx + dz * dz < (5 / 2) * (5 / 2)"
      by (simp only: sqrt_less_pos [of "5 / 2"])
    then show ?thesis by simp
  next
    case sph
    define dy where "dy = vec_y pos - vec_y (so_position obj)"
    from sph have "sqrt (dx * dx + dy * dy + dz * dz) < 1 / 2 + s * (7 / 10)"
      using hit
      by (simp add: boundHit_def spec_scatter_shape_def Let_def PLAYER_RADIUS_def s_def
          distanceTo_def dx_def dy_def dz_def)
    then have "sqrt (dx * dx + dy * dy + dz * dz) < 33 / 10"
      using s by simp
    then have "dx * dx + dy * dy + dz * dz < (33 / 10) * (33 / 10)"
      by (simp only: sqrt_less_pos [of "33 / 10"])
    moreover have "0 \<le> dy * dy" by simp
    ultimately show ?thesis by linarith
  next
    case cone
    then have "sqrt (dx * dx + dz * dz) < 1 / 2 + s * (7 / 10)"
      using hit
      by (simp add: boundHit_def spec_scatter_shape_def Let_def PLAYER_RADIUS_def
          dx_def dz_def s_def)
    then have "sqrt (dx * dx + dz * dz) < 33 / 10" using s by simp
    then have "dx * dx + dz * dz < (33 / 10) * (33 / 10)"
      by (simp only: sqrt_less_pos [of "33 / 10"])
    then show ?thesis by simp
  qed
  then show ?thesis by (simp add: dx_def dz_def)
qed

lemma far_by_x:
  fixes c t d :: real
  assumes "0 \<le> c" "0 \<le> d"
  shows "25 / 2 \<le> (- (33 / 5) - c * d) * (- (33 / 5) - c * d) + (- 5 - t * d) * (- 5 - t * d)"
proof -
  define e where "e = c * d"
  have e: "0 \<le> e" using assms by (simp add: e_def)
  have "(- (33 / 5) - e) * (- (33 / 5) - e) = 1089 / 25 + (66 / 5) * e + e * e"
    by (simp add: algebra_simps)
  moreover have "0 \<le> e * e" "0 \<le> (- 5 - t * d) * (- 5 - t * d)" by simp_all
  ultimately have "25 / 2 \<le> (- (33 / 5) - e) * (- (33 / 5) - e) + (- 5 - t * d) * (- 5 - t * d)"
    using e by linarith
  then show ?thesis by (simp only: e_def)
qed

lemma far_by_z:
  fixes c t d :: real
  assumes "0 \<le> t" "0 \<le> d"
  shows "25 / 2 \<le> (- (33 / 5) - c * d) * (- (33 / 5) - c * d) + (- 5 - t * d) * (- 5 - t * d)"
proof -
  define e where "e = t * d"
  have e: "0 \<le> e" using assms by (simp add: e_def)
  have "(- 5 - e) * (- 5 - e) = 25 + 10 * e + e * e"
    by (simp add: algebra_simps)
  moreover have "0 \<le> e * e" "0 \<le> (- (33 / 5) - c * d) * (- (33 / 5) - c * d)" by simp_all
  ultimately have "25 / 2 \<le> (- (33 / 5) - c * d) * (- (33 / 5) - c * d) + (- 5 - e) * (- 5 - e)"
    using e by linarith
  then show ?thesis by (simp only: e_def)
qed

lemma far_by_distance:
  fixes c t d :: real
  assumes unit: "c * c + t * t = 1" and d: "12 \<le> d"
  shows "25 / 2 \<le> (- (33 / 5) - c * d) * (- (33 / 5) - c * d) + (- 5 - t * d) * (- 5 - t * d)"
proof -
  define p where "p = - (33 / 5) * c - 5 * t"
  define q where "q = - (33 / 5) * t + 5 * c"
  have "p * p + q * q = (1714 / 25) * (c * c + t * t)"
    by (simp add: p_def q_def algebra_simps)
  then have pq: "p * p + q * q = 1714 / 25" using unit by simp
  have "0 \<le> q * q" by simp
  with pq have pp: "p * p \<le> 1714 / 25" by linarith
  have ple: "p \<le> 83 / 10"
  proof (rule ccontr)
    assume "\<not> p \<le> 83 / 10"
    then have "83 / 10 < p" by simp
    then have "(83 / 10) * (83 / 10) < p * p"
      by (intro mult_strict_mono) simp_all
    then show False using pp by simp
  qed
  have "(- (33 / 5) - c * d) * (- (33 / 5) - c * d) + (- 5 - t * d) * (- 5 - t * d)
        = (d * d) * (c * c + t * t) - 2 * (d * p) + 1714 / 25"
    by (simp add: p_def algebra_simps)
  then have E: "(- (33 / 5) - c * d) * (- (33 / 5) - c * d) + (- 5 - t * d) * (- 5 - t * d)
        = d * d - 2 * (d * p) + 1714 / 25"
    using unit by simp
  have "d * p \<le> d * (83 / 10)"
    using d ple by (intro mult_left_mono) simp_all
  moreover have "0 \<le> (d - 12) * (5 * d - 23)"
    using d by simp
  moreover have "(d - 12) * (5 * d - 23) = 5 * (d * d) - 83 * d + 276"
    by (simp add: algebra_simps)
  ultimately show ?thesis
    unfolding E by linarith
qed

lemma angle_split:
  "spec_angle 60 i = real i / 60 * (2 * pi) + spec_jitter i"
  by (simp add: spec_angle_def)

lemma turn_mono:
  assumes "a \<le> b"
  shows "a / 60 * (2 * pi) \<le> b / 30 * pi"
proof -
  have "a / 60 * (2 * pi) \<le> b / 60 * (2 * pi)"
    using assms by (intro mult_right_mono divide_right_mono) simp_all
  then show ?thesis by simp
qed

lemma angle_sin_low:
  assumes "i \<le> 22"
  shows "0 \<le> sin (spec_angle 60 i)"
proof (rule sin_ge_zero)
  define m where "m = real i / 60 * (2 * pi)"
  have j: "0 \<le> spec_jitter i" "spec_jitter i < 1 / 2"
    using spec_jitter_range [of i] by simp_all
  have "real i \<le> 22" using assms by simp
  then have "m \<le> 22 / 30 * pi"
    unfolding m_def by (rule turn_mono)
  moreover have "0 \<le> m" by (simp add: m_def)
  ultimately show "spec_angle 60 i \<le> pi" "0 \<le> spec_angle 60 i"
    unfolding angle_split m_def [symmetric] using j pi_ge_two by linarith+
qed

lemma angle_sin_25: "0 \<le> sin (spec_angle 60 25)"
proof (rule sin_ge_zero)
  have "spec_jitter 25 \<le> 1 / 3"
    by (simp add: spec_jitter_def spec_sample_def jitter_states)
  moreover have "0 \<le> spec_jitter 25"
    using spec_jitter_range [of 25] by simp
  moreover have "spec_angle 60 25 = 5 / 6 * pi + spec_jitter 25"
    by (simp add: angle_split)
  ultimately show "spec_angle 60 25 \<le> pi" "0 \<le> spec_angle 60 25"
    using pi_ge_two by linarith+
qed

lemma angle_sin_26: "0 \<le> sin (spec_angle 60 26)"
proof (rule sin_ge_zero)
  have "spec_jitter 26 \<le> 4 / 15"
    by (simp add: spec_jitter_def spec_sample_def jitter_states)
  moreover have "0 \<le> spec_jitter 26"
    using spec_jitter_range [of 26] by simp
  moreover have "spec_angle 60 26 = 13 / 15 * pi + spec_jitter 26"
    by (simp add: angle_split)
  ultimately show "spec_angle 60 26 \<le> pi" "0 \<le> spec_angle 60 26"
    using pi_ge_two by linarith+
qed

lemma angle_cos_high:
  assumes "45 \<le> i" "i < 60"
  shows "0 \<le> cos (spec_angle 60 i)"
proof -
  define m where "m = real i / 60 * (2 * pi)"
  have j: "0 \<le> spec_jitter i" "spec_jitter i < 1 / 2"
    using spec_jitter_range [of i] by simp_all
  have "45 \<le> real i" "real i \<le> 60" using assms by simp_all
  then have "45 / 60 * (2 * pi) \<le> m" "m \<le> 60 / 30 * pi"
    unfolding m_def using turn_mono [of 45 "real i"] turn_mono [of "real i" 60] by simp_all
  then have lo: "3 / 2 * pi \<le> m" and hi: "m \<le> 2 * pi" by simp_all
  have "0 \<le> cos (spec_angle 60 i - 2 * pi)"
  proof (rule cos_ge_zero)
    show "- (pi / 2) \<le> spec_angle 60 i - 2 * pi"
      unfolding angle_split m_def [symmetric] using lo j by linarith
    show "spec_angle 60 i - 2 * pi \<le> pi / 2"
      unfolding angle_split m_def [symmetric] using hi j pi_ge_two by linarith
  qed
  moreover have "cos (spec_angle 60 i - 2 * pi) = cos (spec_angle 60 i)"
    using cos_periodic [of "spec_angle 60 i - 2 * pi"] by simp
  ultimately show ?thesis by simp
qed

lemma distance_mid:
  assumes "23 \<le> i" "i \<le> 44" "i \<noteq> 25" "i \<noteq> 26"
  shows "12 \<le> spec_distance 5 75 i"
proof -
  from assms have "i \<in> {23, 24, 27, 28, 29, 30, 31, 32, 33, 34, 35, 36, 37, 38, 39, 40,
      41, 42, 43, 44}"
    by simp presburger
  then show ?thesis
    by (auto simp: spec_distance_def spec_sample_def distance_states)
qed

lemma sin_cos_unit: "cos a * cos a + sin a * sin a = (1::real)"
  by (rule sin_cos_squared_add3)

lemma object_far:
  assumes "i < 60"
  shows "25 / 2 \<le>
      (- (33 / 5) - vec_x (so_position (spec_object 60 5 75 i)))
        * (- (33 / 5) - vec_x (so_position (spec_object 60 5 75 i)))
      + (- 5 - vec_z (so_position (spec_object 60 5 75 i)))
        * (- 5 - vec_z (so_position (spec_object 60 5 75 i)))"
proof -
  define a d where "a = spec_angle 60 i" and "d = spec_distance 5 75 i"
  have pos: "vec_x (so_position (spec_object 60 5 75 i)) = cos a * d"
    "vec_z (so_position (spec_object 60 5 75 i)) = sin a * d"
    by (simp_all add: spec_object_def a_def d_def)
  have d0: "0 \<le> d"
    using spec_distance_range [of 5 75 i] by (simp add: d_def)
  consider (low) "i \<le> 22 \<or> i = 25 \<or> i = 26" | (high) "45 \<le> i"
    | (mid) "23 \<le> i" "i \<le> 44" "i \<noteq> 25" "i \<noteq> 26"
    by linarith
  then show ?thesis
  proof cases
    case low
    then have "0 \<le> sin a"
      using angle_sin_low [of i] angle_sin_25 angle_sin_26 by (auto simp: a_def)
    then show ?thesis unfolding pos by (rule far_by_z [OF _ d0])
  next
    case high
    then have "0 \<le> cos a"
      using angle_cos_high [OF _ assms] by (simp add: a_def)
    then show ?thesis unfolding pos by (rule far_by_x [OF _ d0])
  next
    case mid
    then have "12 \<le> d"
      using distance_mid [of i] by (simp add: d_def)
    then show ?thesis unfolding pos by (rule far_by_distance [OF sin_cos_unit])
  qed
qed

lemma object_missed:
  assumes "i < 60"
  shows "\<not> boundHit (Vector3 (- (33 / 5)) 2 (- 5)) pb pt
            (spec_scatter_shape (spec_object 60 5 75 i))"
proof
  assume hit: "boundHit (Vector3 (- (33 / 5)) 2 (- 5)) pb pt
            (spec_scatter_shape (spec_object 60 5 75 i))"
  have sz: "1 \<le> so_size (spec_object 60 5 75 i)" "so_size (spec_object 60 5 75 i) < 4"
    using spec_object_ranges [of 60 5 75 i] by simp_all
  from scatter_reach [OF sz hit] object_far [OF assms]
  show False by (simp add: Vector3_def)
qed

lemma index_split:
  "generateCollisionBounds objs
     = generateCollisionBounds [] @ concat (map scatteredBounds objs)"
  by (simp add: generateCollisionBounds_def)

lemma scene_shapes:
  "staticCollisionBounds
     = generateCollisionBounds []
       @ map (\<lambda>i. spec_scatter_shape (spec_object 60 5 75 i)) [0..<60]"
proof -
  have "\<forall>obj \<in> set (spec_generate 60 5 75). so_type obj \<in> {0, 1, 2, 3}"
    using spec_object_ranges [of 60 5 75] by (auto simp: spec_generate_def)
  then have "concat (map scatteredBounds (spec_generate 60 5 75))
               = map spec_scatter_shape (spec_generate 60 5 75)"
    by (rule scattered_explicit)
  then show ?thesis
    unfolding staticCollisionBounds_def scatteredObjects_def generate_refines
    by (subst index_split) (simp add: spec_generate_def comp_def)
qed

lemma checkCollision_append:
  "checkCollision (as @ bs) pos h \<longleftrightarrow> checkCollision as pos h \<or> checkCollision bs pos h"
  by (simp add: checkCollision_def collisionLoop_append Let_def)

lemma scene_standing_free:
  "\<not> checkCollision staticCollisionBounds (Vector3 (- (33 / 5)) 2 (- 5)) 2"
proof -
  have "\<not> checkCollision (map (\<lambda>i. spec_scatter_shape (spec_object 60 5 75 i)) [0..<60])
            (Vector3 (- (33 / 5)) 2 (- 5)) 2"
    using object_missed by (auto simp: checkCollision_def collisionLoop_iff Let_def)
  then show ?thesis
    using standing_free by (simp add: scene_shapes checkCollision_append)
qed

lemma scene_crouched_hit:
  "checkCollision staticCollisionBounds (Vector3 (- (33 / 5)) (287 / 250) (- 5)) 2"
  using crouched_hit by (simp add: scene_shapes checkCollision_append)

subsection \<open>The scene at the wall\<close>

text \<open>
  No shape of the scene reaches the wall circle. A shape that is hit has its centre within
  4.5 of the player in the plane: the boxes are at most 4 wide and deep, the radii at most
  4, and the player has radius 0.5. The centres of the columns and of the statue are
  within 45 of the origin, those of the scattered objects within 70.
\<close>

lemma shape_reach:
  assumes sz: "0 \<le> vec_x (cb_size b)" "vec_x (cb_size b) \<le> 4"
      "0 \<le> vec_z (cb_size b)" "vec_z (cb_size b) \<le> 4"
    and hit: "boundHit pos pb pt b"
  shows "(vec_x pos - vec_x (cb_position b)) * (vec_x pos - vec_x (cb_position b))
       + (vec_z pos - vec_z (cb_position b)) * (vec_z pos - vec_z (cb_position b))
       < 81 / 4"
proof -
  define dx dz where "dx = vec_x pos - vec_x (cb_position b)"
    and "dz = vec_z pos - vec_z (cb_position b)"
  define sx sz where "sx = vec_x (cb_size b)" and "sz = vec_z (cb_size b)"
  have s: "0 \<le> sx" "sx \<le> 4" "0 \<le> sz" "sz \<le> 4"
    using sz by (simp_all add: sx_def sz_def)
  have "dx * dx + dz * dz < 81 / 4"
  proof (cases "cb_type b")
    case Box
    define ex where "ex = vec_x pos - max (vec_x (cb_position b) - sx / 2)
                                        (min (vec_x pos) (vec_x (cb_position b) + sx / 2))"
    define ez where "ez = vec_z pos - max (vec_z (cb_position b) - sz / 2)
                                        (min (vec_z pos) (vec_z (cb_position b) + sz / 2))"
    obtain ey where "ex * ex + ey * ey + ez * ez < 1 / 4"
      using hit Box
      by (simp add: boundHit_def Let_def PLAYER_RADIUS_def ex_def ez_def sx_def sz_def)
    moreover have "0 \<le> ey * ey" "0 \<le> ex * ex" "0 \<le> ez * ez" by simp_all
    ultimately have ex2: "ex * ex < 1 / 4" and ez2: "ez * ez < 1 / 4" by linarith+
    have "\<bar>ex\<bar> < 1 / 2" "\<bar>ez\<bar> < 1 / 2"
      by (rule square_less_quarter [OF ex2], rule square_less_quarter [OF ez2])
    then have "\<bar>dx\<bar> < sx / 2 + 1 / 2" "\<bar>dz\<bar> < sz / 2 + 1 / 2"
      using s clamp_near [of "sx / 2" "vec_x pos" "vec_x (cb_position b)"]
        clamp_near [of "sz / 2" "vec_z pos" "vec_z (cb_position b)"]
      by (simp_all add: ex_def ez_def dx_def dz_def)
    then have "\<bar>dx\<bar> < 5 / 2" "\<bar>dz\<bar> < 5 / 2" using s by simp_all
    then have "dx * dx < (5 / 2) * (5 / 2)" "dz * dz < (5 / 2) * (5 / 2)"
      by (simp_all only: square_bound)
    then show ?thesis by simp
  next
    case Cylinder
    then have "sqrt (dx * dx + dz * dz) < 1 / 2 + sx"
      using hit
      by (simp add: boundHit_def Let_def PLAYER_RADIUS_def dx_def dz_def sx_def)
    then have "sqrt (dx * dx + dz * dz) < 9 / 2" using s by simp
    then have "dx * dx + dz * dz < (9 / 2) * (9 / 2)"
      by (simp only: sqrt_less_pos [of "9 / 2"])
    then show ?thesis by simp
  next
    case Sphere
    define dy where "dy = vec_y pos - vec_y (cb_position b)"
    from Sphere have "sqrt (dx * dx + dy * dy + dz * dz) < 1 / 2 + sx"
      using hit
      by (simp add: boundHit_def Let_def PLAYER_RADIUS_def sx_def
          distanceTo_def dx_def dy_def dz_def)
    then have "sqrt (dx * dx + dy * dy + dz * dz) < 9 / 2"
      using s by simp
    then have "dx * dx + dy * dy + dz * dz < (9 / 2) * (9 / 2)"
      by (simp only: sqrt_less_pos [of "9 / 2"])
    moreover have "0 \<le> dy * dy" by simp
    ultimately show ?thesis by linarith
  qed
  then show ?thesis by (simp add: dx_def dz_def)
qed

lemma reach_inside:
  fixes px pz cx cz :: real
  assumes c: "cx * cx + cz * cz \<le> 70 * 70"
    and d: "(px - cx) * (px - cx) + (pz - cz) * (pz - cz) < 81 / 4"
  shows "sqrt (px * px + pz * pz) < 75"
proof -
  have "sqrt ((cx + (px - cx))\<^sup>2 + (cz + (pz - cz))\<^sup>2)
          \<le> sqrt (cx\<^sup>2 + cz\<^sup>2) + sqrt ((px - cx)\<^sup>2 + (pz - cz)\<^sup>2)"
    by (rule real_sqrt_sum_squares_triangle_ineq)
  then have t: "sqrt (px * px + pz * pz)
      \<le> sqrt (cx * cx + cz * cz) + sqrt ((px - cx) * (px - cx) + (pz - cz) * (pz - cz))"
    by (simp add: power2_eq_square)
  have "sqrt (cx * cx + cz * cz) \<le> 70"
    using c by (intro real_le_lsqrt) (simp_all add: power2_eq_square)
  moreover have "sqrt ((px - cx) * (px - cx) + (pz - cz) * (pz - cz)) < 9 / 2"
    using d by (intro real_less_lsqrt) (simp_all add: power2_eq_square)
  ultimately show ?thesis using t by linarith
qed

lemma fixed_shapes_bounded:
  assumes "b \<in> set (generateCollisionBounds [])"
  shows "0 \<le> vec_x (cb_size b) \<and> vec_x (cb_size b) \<le> 4
       \<and> 0 \<le> vec_z (cb_size b) \<and> vec_z (cb_size b) \<le> 4
       \<and> vec_x (cb_position b) * vec_x (cb_position b)
           + vec_z (cb_position b) * vec_z (cb_position b) \<le> 70 * 70"
  using assms unfolding index_none
  by (auto simp: columnPositions_def spec_column_shapes_def spec_statue_shapes_def)

lemma scatter_shape_centre:
  "vec_x (cb_position (spec_scatter_shape obj)) = vec_x (so_position obj)"
  "vec_z (cb_position (spec_scatter_shape obj)) = vec_z (so_position obj)"
  by (simp_all add: spec_scatter_shape_def Let_def)

lemma scatter_shape_size:
  assumes "1 \<le> so_size obj" "so_size obj < 4"
  shows "0 \<le> vec_x (cb_size (spec_scatter_shape obj))"
    and "vec_x (cb_size (spec_scatter_shape obj)) \<le> 4"
    and "0 \<le> vec_z (cb_size (spec_scatter_shape obj))"
    and "vec_z (cb_size (spec_scatter_shape obj)) \<le> 4"
  using assms by (simp_all add: spec_scatter_shape_def Let_def)

lemma scatter_shapes_bounded:
  "0 \<le> vec_x (cb_size (spec_scatter_shape (spec_object 60 5 75 i)))
   \<and> vec_x (cb_size (spec_scatter_shape (spec_object 60 5 75 i))) \<le> 4
   \<and> 0 \<le> vec_z (cb_size (spec_scatter_shape (spec_object 60 5 75 i)))
   \<and> vec_z (cb_size (spec_scatter_shape (spec_object 60 5 75 i))) \<le> 4
   \<and> vec_x (cb_position (spec_scatter_shape (spec_object 60 5 75 i)))
         * vec_x (cb_position (spec_scatter_shape (spec_object 60 5 75 i)))
       + vec_z (cb_position (spec_scatter_shape (spec_object 60 5 75 i)))
         * vec_z (cb_position (spec_scatter_shape (spec_object 60 5 75 i))) \<le> 70 * 70"
proof -
  have sz: "1 \<le> so_size (spec_object 60 5 75 i)" "so_size (spec_object 60 5 75 i) < 4"
    using spec_object_ranges [of 60 5 75 i] by simp_all
  have d: "5 \<le> spec_distance 5 75 i" "spec_distance 5 75 i < 70"
    using spec_distance_range [of 5 75 i] by simp_all
  then have "spec_distance 5 75 i * spec_distance 5 75 i \<le> 70 * 70"
    by (intro mult_mono) simp_all
  then show ?thesis
    unfolding scatter_shape_centre spec_object_planar
    using scatter_shape_size [OF sz] by simp
qed

lemma scene_wall_free:
  assumes "WALL_RADIUS \<le> sqrt (vec_x p * vec_x p + vec_z p * vec_z p)"
  shows "\<not> checkCollision staticCollisionBounds p h"
proof
  assume "checkCollision staticCollisionBounds p h"
  then obtain b pb pt where b: "b \<in> set staticCollisionBounds" and hit: "boundHit p pb pt b"
    by (auto simp: checkCollision_def collisionLoop_iff Let_def)
  have bounded: "0 \<le> vec_x (cb_size b) \<and> vec_x (cb_size b) \<le> 4
       \<and> 0 \<le> vec_z (cb_size b) \<and> vec_z (cb_size b) \<le> 4
       \<and> vec_x (cb_position b) * vec_x (cb_position b)
           + vec_z (cb_position b) * vec_z (cb_position b) \<le> 70 * 70"
    using b fixed_shapes_bounded [of b] scatter_shapes_bounded
    unfolding scene_shapes by auto
  then have "(vec_x p - vec_x (cb_position b)) * (vec_x p - vec_x (cb_position b))
       + (vec_z p - vec_z (cb_position b)) * (vec_z p - vec_z (cb_position b)) < 81 / 4"
    using hit by (intro shape_reach) simp_all
  with bounded have "sqrt (vec_x p * vec_x p + vec_z p * vec_z p) < 75"
    by (intro reach_inside) simp_all
  then show False using assms by (simp add: WALL_RADIUS_def)
qed

subsection \<open>Sample states\<close>


lemma locked_initial:
  "isLocked (setLocked True initialPlayer)"
  "velocityY (setLocked True initialPlayer) = 0"
  "isGrounded (setLocked True initialPlayer)"
  "camera (setLocked True initialPlayer) = Vector3 0 2 10"
  "fog (setLocked True initialPlayer) = Some \<lparr>near = 5, far = 30\<rparr>"
  "\<not> duck (moveState (setLocked True initialPlayer))"
  by (simp_all add: setLocked_def initialPlayer_def initialMoveState_def)

lemma rising_camera:
  "camera (useFrame staticCollisionBounds (walkState (- (33 / 5)) 1 (- (49 / 10))) (1 / 100)
      noRotation)
     = Vector3 (- (33 / 5)) (287 / 250) (- 5)"
proof -
  let ?s = "walkState (- (33 / 5)) 1 (- (49 / 10))"
  let ?B = "staticCollisionBounds"
  have l: "isLocked ?s" and nd: "\<not> duck (moveState ?s)"
    by (simp_all add: walkState_def initialMoveState_def)
  have c: "candidate ?s (1 / 100) noRotation = (- (33 / 5), - 5)"
    by (simp add: candidate_walk)
  have w: "\<not> WALL_RADIUS \<le> sqrt ((- (33 / 5)) * (- (33 / 5)) + (- 5) * (- 5 :: real))"
    by (simp add: WALL_RADIUS_def sqrt_ge_pos)
  have h: "horizontal ?B ?s (- (33 / 5)) (- 5) = (- (33 / 5), - 5)"
    using nd scene_standing_free by (simp add: horizontal_inside [OF w] GROUND_HEIGHT_def)
  have v: "snd (snd (vertical ?s (1 / 100))) = 287 / 250"
    by (simp add: vertical_def walkState_def initialMoveState_def Vector3_def Let_def constants)
  show ?thesis
    using frame_locked(3,4,5) [OF l c, of ?B] h v by (simp add: Vector3_def)
qed

lemma walk_facts:
  "isLocked (walkState a b d)"
  "velocityY (walkState a b d) = 0"
  "camera (walkState a b d) = Vector3 a b d"
  "\<not> duck (moveState (walkState a b d))"
  "fog (walkState a b d) = Some \<lparr>near = 5, far = 30\<rparr>"
  by (simp_all add: walkState_def initialMoveState_def)

lemma reach_locked: "reachable dmax b (setLocked True initialPlayer)"
  by (intro reach_lock reach_init)

lemma frame_after_jump:
  "velocityY (useFrame b (handleKeyDown (setLocked True initialPlayer) (pressed ''Space''))
      (1 / 100) noRotation) = 39 / 5"
proof -
  let ?t = "handleKeyDown (setLocked True initialPlayer) (pressed ''Space'')"
  have t: "?t = (setLocked True initialPlayer)\<lparr>velocityY := JUMP_FORCE, isGrounded := False\<rparr>"
    by (simp add: handleKeyDown_def KEYS_def pressed_def setLocked_def initialPlayer_def Let_def)
  have l: "isLocked ?t"
    unfolding t by (simp add: setLocked_def)
  obtain newX newZ where c: "candidate ?t (1 / 100) noRotation = (newX, newZ)"
    by (cases "candidate ?t (1 / 100) noRotation")
  have "fst (vertical ?t (1 / 100)) = 39 / 5"
    unfolding t
    by (simp add: vertical_def setLocked_def initialPlayer_def Vector3_def Let_def constants)
  then show ?thesis
    by (simp add: frame_locked(1) [OF l c])
qed

section \<open>No penetration\<close>

text \<open>
  Claim C2, as amended. After an active frame whose candidate position is inside the wall
  and that changed the horizontal position of the camera, the new horizontal position is
  the candidate, and the collision test evaluated at these coordinates, with both the
  vertical coordinate and the player height equal to the height of the current duck state
  (1 when duck is held, 2 otherwise), returns \<open>false\<close>: a frame only moves the camera to
  a candidate that has passed this test. A frame whose candidate is at or beyond the wall
  puts the camera on the wall circle without a collision test; in the scene of the
  component no shape reaches the wall circle, and the test returns \<open>false\<close> there for
  every vertical coordinate and every player height.
\<close>

theorem committed_move_is_free:
  assumes "isLocked s" and "candidate s delta rot = (newX, newZ)"
  shows "(\<not> WALL_RADIUS \<le> sqrt (newX * newX + newZ * newZ)
          \<and> (vec_x (camera (useFrame bounds s delta rot)),
              vec_z (camera (useFrame bounds s delta rot)))
            \<noteq> (vec_x (camera s), vec_z (camera s))
          \<longrightarrow>
          (vec_x (camera (useFrame bounds s delta rot)),
           vec_z (camera (useFrame bounds s delta rot))) = (newX, newZ)
          \<and> \<not> checkCollision bounds
                \<lparr>vec_x = vec_x (camera (useFrame bounds s delta rot)),
                 vec_y = (if duck (moveState (useFrame bounds s delta rot))
                          then DUCK_HEIGHT else GROUND_HEIGHT),
                 vec_z = vec_z (camera (useFrame bounds s delta rot))\<rparr>
                (if duck (moveState (useFrame bounds s delta rot))
                 then DUCK_HEIGHT else GROUND_HEIGHT))
       \<and> (WALL_RADIUS \<le> sqrt (newX * newX + newZ * newZ) \<longrightarrow>
          \<not> checkCollision staticCollisionBounds
                \<lparr>vec_x = vec_x (camera (useFrame staticCollisionBounds s delta rot)),
                 vec_y = y,
                 vec_z = vec_z (camera (useFrame staticCollisionBounds s delta rot))\<rparr> h)"
proof (intro conjI impI)
  assume a: "\<not> WALL_RADIUS \<le> sqrt (newX * newX + newZ * newZ)
          \<and> (vec_x (camera (useFrame bounds s delta rot)),
              vec_z (camera (useFrame bounds s delta rot)))
            \<noteq> (vec_x (camera s), vec_z (camera s))"
  then have w: "\<not> WALL_RADIUS \<le> sqrt (newX * newX + newZ * newZ)" by simp
  note fr = frame_locked(4,5,7) [OF assms, of bounds]
  from a have moved: "horizontal bounds s newX newZ \<noteq> (vec_x (camera s), vec_z (camera s))"
    unfolding fr by (cases "horizontal bounds s newX newZ") simp
  then have n: "\<not> checkCollision bounds
               (Vector3 newX (if duck (moveState s) then DUCK_HEIGHT else GROUND_HEIGHT) newZ)
               (if duck (moveState s) then DUCK_HEIGHT else GROUND_HEIGHT)"
    unfolding horizontal_inside [OF w] by (simp split: if_splits)
  then have h: "horizontal bounds s newX newZ = (newX, newZ)"
    by (simp add: horizontal_inside [OF w])
  show "(vec_x (camera (useFrame bounds s delta rot)),
           vec_z (camera (useFrame bounds s delta rot))) = (newX, newZ)"
    by (simp add: fr h)
  show "\<not> checkCollision bounds
                \<lparr>vec_x = vec_x (camera (useFrame bounds s delta rot)),
                 vec_y = (if duck (moveState (useFrame bounds s delta rot))
                          then DUCK_HEIGHT else GROUND_HEIGHT),
                 vec_z = vec_z (camera (useFrame bounds s delta rot))\<rparr>
                (if duck (moveState (useFrame bounds s delta rot))
                 then DUCK_HEIGHT else GROUND_HEIGHT)"
    using n by (simp add: fr h Vector3_def)
next
  assume w: "WALL_RADIUS \<le> sqrt (newX * newX + newZ * newZ)"
  have "planar (camera (useFrame staticCollisionBounds s delta rot)) = WALL_RADIUS"
    by (rule frame_on_wall [OF assms w])
  then show "\<not> checkCollision staticCollisionBounds
                \<lparr>vec_x = vec_x (camera (useFrame staticCollisionBounds s delta rot)),
                 vec_y = y,
                 vec_z = vec_z (camera (useFrame staticCollisionBounds s delta rot))\<rparr> h"
    by (intro scene_wall_free) (simp add: planar_def)
qed

text \<open>
  A player beside the first column, at \<open>(-6.6, -4.9)\<close>, walks 0.1 along the negative Z
  axis in a frame of 0.01 seconds, in the scene of the component: the position changes to
  the candidate \<open>(-6.6, -5)\<close>. A player on the wall circle at \<open>(75, 0)\<close> does the same
  and is put back on the circle.
\<close>

theorem committed_move_is_free_witness:
  "(vec_x (camera (useFrame staticCollisionBounds
        (walkState (- (33 / 5)) 1 (- (49 / 10))) (1 / 100) noRotation)),
    vec_z (camera (useFrame staticCollisionBounds
        (walkState (- (33 / 5)) 1 (- (49 / 10))) (1 / 100) noRotation)))
     = (- (33 / 5), - 5)
   \<and> \<not> checkCollision staticCollisionBounds
         \<lparr>vec_x = - (33 / 5), vec_y = GROUND_HEIGHT, vec_z = - 5\<rparr> GROUND_HEIGHT
   \<and> \<not> checkCollision staticCollisionBounds
         \<lparr>vec_x = vec_x (camera (useFrame staticCollisionBounds (walkState 75 2 0) (1 / 100)
                     noRotation)),
          vec_y = GROUND_HEIGHT,
          vec_z = vec_z (camera (useFrame staticCollisionBounds (walkState 75 2 0) (1 / 100)
                     noRotation))\<rparr> GROUND_HEIGHT"
proof -
  let ?s = "walkState (- (33 / 5)) 1 (- (49 / 10))"
  let ?t = "useFrame staticCollisionBounds ?s (1 / 100) noRotation"
  have c: "candidate ?s (1 / 100) noRotation = (- (33 / 5), - 5)"
    by (simp add: candidate_walk)
  have w: "\<not> WALL_RADIUS \<le> sqrt ((- (33 / 5)) * (- (33 / 5)) + (- 5) * (- 5 :: real))"
    by (simp add: WALL_RADIUS_def sqrt_ge_pos)
  have moved: "(vec_x (camera ?t), vec_z (camera ?t)) \<noteq> (vec_x (camera ?s), vec_z (camera ?s))"
    by (simp add: rising_camera walk_facts Vector3_def)
  have m: "\<not> duck (moveState ?t)"
    by (simp add: frame_locked(7) [OF walk_facts(1) c] walk_facts)
  note inside = committed_move_is_free [OF walk_facts(1) c, of staticCollisionBounds]
  from inside w moved have both:
    "(vec_x (camera ?t), vec_z (camera ?t)) = (- (33 / 5), - 5)
     \<and> \<not> checkCollision staticCollisionBounds
           \<lparr>vec_x = vec_x (camera ?t),
            vec_y = (if duck (moveState ?t) then DUCK_HEIGHT else GROUND_HEIGHT),
            vec_z = vec_z (camera ?t)\<rparr>
           (if duck (moveState ?t) then DUCK_HEIGHT else GROUND_HEIGHT)"
    by blast
  then have p: "vec_x (camera ?t) = - (33 / 5)" "vec_z (camera ?t) = - 5"
    by simp_all
  from both have "\<not> checkCollision staticCollisionBounds
           \<lparr>vec_x = vec_x (camera ?t),
            vec_y = (if duck (moveState ?t) then DUCK_HEIGHT else GROUND_HEIGHT),
            vec_z = vec_z (camera ?t)\<rparr>
           (if duck (moveState ?t) then DUCK_HEIGHT else GROUND_HEIGHT)"
    by blast
  then have "\<not> checkCollision staticCollisionBounds
         \<lparr>vec_x = vec_x (camera ?t), vec_y = GROUND_HEIGHT, vec_z = vec_z (camera ?t)\<rparr>
         GROUND_HEIGHT"
    using m by simp
  then have free: "\<not> checkCollision staticCollisionBounds
         \<lparr>vec_x = - (33 / 5), vec_y = GROUND_HEIGHT, vec_z = - 5\<rparr> GROUND_HEIGHT"
    unfolding p .
  have c2: "candidate (walkState 75 2 0) (1 / 100) noRotation = (75, - (1 / 10))"
    by (simp add: candidate_walk)
  have w2: "WALL_RADIUS \<le> sqrt (75 * 75 + (- (1 / 10)) * (- (1 / 10)))"
    by (simp add: WALL_RADIUS_def sqrt_ge_pos)
  note wall = committed_move_is_free [OF walk_facts(1) c2,
      where y = GROUND_HEIGHT and h = GROUND_HEIGHT]
  from wall w2 have "\<not> checkCollision staticCollisionBounds
         \<lparr>vec_x = vec_x (camera (useFrame staticCollisionBounds (walkState 75 2 0) (1 / 100)
                     noRotation)),
          vec_y = GROUND_HEIGHT,
          vec_z = vec_z (camera (useFrame staticCollisionBounds (walkState 75 2 0) (1 / 100)
                     noRotation))\<rparr> GROUND_HEIGHT"
    by blast
  with p free show ?thesis by simp
qed

text \<open>
  In the first of these frames the camera itself is at height 1: the player has just
  released the duck key and the height is being raised, to 1.148 after this frame. The
  frame moves the camera to the candidate, since the test at standing height 2 finds
  nothing, but the collision test at the new camera position with the height of the duck
  state finds the base of the column.
\<close>

theorem committed_position_overlaps:
  "(vec_x (camera (useFrame staticCollisionBounds (walkState (- (33 / 5)) 1 (- (49 / 10)))
          (1 / 100) noRotation)),
    vec_z (camera (useFrame staticCollisionBounds (walkState (- (33 / 5)) 1 (- (49 / 10)))
          (1 / 100) noRotation)))
     = candidate (walkState (- (33 / 5)) 1 (- (49 / 10))) (1 / 100) noRotation
   \<and> vec_z (camera (useFrame staticCollisionBounds (walkState (- (33 / 5)) 1 (- (49 / 10)))
          (1 / 100) noRotation))
     \<noteq> vec_z (camera (walkState (- (33 / 5)) 1 (- (49 / 10))))
   \<and> checkCollision staticCollisionBounds
       (camera (useFrame staticCollisionBounds (walkState (- (33 / 5)) 1 (- (49 / 10)))
          (1 / 100) noRotation))
       (if duck (moveState (useFrame staticCollisionBounds
              (walkState (- (33 / 5)) 1 (- (49 / 10))) (1 / 100) noRotation))
        then DUCK_HEIGHT else GROUND_HEIGHT)"
proof -
  let ?s = "walkState (- (33 / 5)) 1 (- (49 / 10))"
  have c: "candidate ?s (1 / 100) noRotation = (- (33 / 5), - 5)"
    by (simp add: candidate_walk)
  show ?thesis
    using scene_crouched_hit
    by (simp add: rising_camera frame_locked(7) [OF walk_facts(1) c] walk_facts c
        GROUND_HEIGHT_def Vector3_def)
qed

section \<open>The wall\<close>

text \<open>
  Claim C3. In an active frame whose candidate position is at planar distance at least
  \<open>WALL_RADIUS\<close> from the origin, the committed position is
  \<open>(cos \<theta> * WALL_RADIUS, sin \<theta> * WALL_RADIUS)\<close> for \<open>\<theta> = atan2 newZ newX\<close>: the
  candidate scaled back to distance exactly \<open>WALL_RADIUS\<close>. Every frame, active or not, keeps a position that is within
  \<open>WALL_RADIUS\<close> of the origin within it, and so every reachable state is within it.
\<close>

theorem wall_containment:
  "(isLocked s \<and> candidate s delta rot = (newX, newZ)
      \<and> WALL_RADIUS \<le> sqrt (newX * newX + newZ * newZ) \<longrightarrow>
      vec_x (camera (useFrame bounds s delta rot)) = cos (atan2 newZ newX) * WALL_RADIUS
      \<and> vec_z (camera (useFrame bounds s delta rot)) = sin (atan2 newZ newX) * WALL_RADIUS
      \<and> vec_x (camera (useFrame bounds s delta rot)) * sqrt (newX * newX + newZ * newZ)
          = newX * WALL_RADIUS
      \<and> vec_z (camera (useFrame bounds s delta rot)) * sqrt (newX * newX + newZ * newZ)
          = newZ * WALL_RADIUS
      \<and> planar (camera (useFrame bounds s delta rot)) = WALL_RADIUS)
   \<and> (planar (camera s) \<le> WALL_RADIUS \<longrightarrow>
        planar (camera (useFrame bounds s delta rot)) \<le> WALL_RADIUS)
   \<and> (reachable dmax bounds s \<longrightarrow> planar (camera s) \<le> WALL_RADIUS)"
proof (intro conjI impI)
  assume a: "isLocked s \<and> candidate s delta rot = (newX, newZ)
      \<and> WALL_RADIUS \<le> sqrt (newX * newX + newZ * newZ)"
  then have l: "isLocked s" and c: "candidate s delta rot = (newX, newZ)"
    and w: "WALL_RADIUS \<le> sqrt (newX * newX + newZ * newZ)" by simp_all
  let ?r = "sqrt (newX * newX + newZ * newZ)"
  show x: "vec_x (camera (useFrame bounds s delta rot)) = cos (atan2 newZ newX) * WALL_RADIUS"
    by (simp add: frame_locked(4) [OF l c] horizontal_wall [OF w])
  show z: "vec_z (camera (useFrame bounds s delta rot)) = sin (atan2 newZ newX) * WALL_RADIUS"
    by (simp add: frame_locked(5) [OF l c] horizontal_wall [OF w])
  have "cos (atan2 newZ newX) * ?r = newX" "sin (atan2 newZ newX) * ?r = newZ"
    using atan2_polar [of newZ newX] by simp_all
  then have "(cos (atan2 newZ newX) * ?r) * WALL_RADIUS = newX * WALL_RADIUS"
    "(sin (atan2 newZ newX) * ?r) * WALL_RADIUS = newZ * WALL_RADIUS"
    by simp_all
  then show "vec_x (camera (useFrame bounds s delta rot)) * ?r = newX * WALL_RADIUS"
    "vec_z (camera (useFrame bounds s delta rot)) * ?r = newZ * WALL_RADIUS"
    unfolding x z by (simp_all only: mult.assoc mult.commute mult.left_commute)
  show "planar (camera (useFrame bounds s delta rot)) = WALL_RADIUS"
    using l c w by (rule frame_on_wall)
next
  assume "planar (camera s) \<le> WALL_RADIUS"
  then show "planar (camera (useFrame bounds s delta rot)) \<le> WALL_RADIUS"
    by (rule frame_contained)
next
  assume "reachable dmax bounds s"
  then show "planar (camera s) \<le> WALL_RADIUS"
    by (rule reachable_contained)
qed

text \<open>
  A player on the wall at \<open>(75, 0)\<close> who walks 0.1 sideways is put back on the circle;
  the initial state is inside.
\<close>

theorem wall_containment_witness:
  "vec_x (camera (useFrame staticCollisionBounds (walkState 75 2 0) (1 / 100) noRotation))
     = cos (atan2 (- (1 / 10)) 75) * WALL_RADIUS
   \<and> vec_z (camera (useFrame staticCollisionBounds (walkState 75 2 0) (1 / 100) noRotation))
     = sin (atan2 (- (1 / 10)) 75) * WALL_RADIUS
   \<and> planar (camera (useFrame staticCollisionBounds (walkState 75 2 0) (1 / 100) noRotation)) = WALL_RADIUS
   \<and> planar (camera initialPlayer) \<le> WALL_RADIUS
   \<and> planar (camera (useFrame staticCollisionBounds initialPlayer (1 / 100) noRotation)) \<le> WALL_RADIUS"
proof -
  have c: "candidate (walkState 75 2 0) (1 / 100) noRotation = (75, - (1 / 10))"
    by (simp add: candidate_walk)
  have w: "WALL_RADIUS \<le> sqrt (75 * 75 + (- (1 / 10)) * (- (1 / 10)))"
    by (simp add: WALL_RADIUS_def sqrt_ge_pos)
  have r: "reachable 1 staticCollisionBounds initialPlayer"
    by (rule reach_init)
  note a = wall_containment [of "walkState 75 2 0" "1 / 100" noRotation 75 "- (1 / 10)" staticCollisionBounds 1]
  note b = wall_containment [of initialPlayer "1 / 100" noRotation 75 "- (1 / 10)" staticCollisionBounds 1]
  from a c w have "vec_x (camera (useFrame staticCollisionBounds (walkState 75 2 0) (1 / 100) noRotation))
     = cos (atan2 (- (1 / 10)) 75) * WALL_RADIUS
   \<and> vec_z (camera (useFrame staticCollisionBounds (walkState 75 2 0) (1 / 100) noRotation))
     = sin (atan2 (- (1 / 10)) 75) * WALL_RADIUS
   \<and> planar (camera (useFrame staticCollisionBounds (walkState 75 2 0) (1 / 100) noRotation)) = WALL_RADIUS"
    by (simp add: walk_facts)
  moreover from b r have "planar (camera initialPlayer) \<le> WALL_RADIUS
   \<and> planar (camera (useFrame staticCollisionBounds initialPlayer (1 / 100) noRotation)) \<le> WALL_RADIUS"
    by blast
  ultimately show ?thesis by blast
qed

section \<open>Jumping\<close>

text \<open>
  Claim C5, as amended. A jump request is a key-down of the space bar. A request made
  while the player is not grounded, or while the vertical velocity is not 0, changes
  neither the velocity nor the grounded flag nor the camera, and changes nothing at all
  when no modifier key comes with it. A request made while the component is active and the
  player is grounded with velocity exactly 0 sets the velocity to exactly \<open>JUMP_FORCE\<close>
  and clears the grounded flag, so that the next integration step starts from exactly this
  velocity with the player airborne; where that step lifts the camera above the standing
  height it leaves the velocity \<open>JUMP_FORCE + GRAVITY * \<Delta>t\<close> and the player airborne.
  An inactive component ignores the request.
\<close>

theorem jump_gating:
  "(code e = ''Space'' \<and> (\<not> isGrounded s \<or> velocityY s \<noteq> 0) \<longrightarrow>
      velocityY (handleKeyDown s e) = velocityY s
      \<and> isGrounded (handleKeyDown s e) = isGrounded s
      \<and> camera (handleKeyDown s e) = camera s
      \<and> (\<not> ctrlKey e \<and> \<not> shiftKey e \<longrightarrow> handleKeyDown s e = s))
   \<and> (code e = ''Space'' \<and> isLocked s \<and> isGrounded s \<and> velocityY s = 0 \<longrightarrow>
      velocityY (handleKeyDown s e) = JUMP_FORCE
      \<and> \<not> isGrounded (handleKeyDown s e)
      \<and> camera (handleKeyDown s e) = camera s
      \<and> (GROUND_HEIGHT < vec_y (camera s) + (JUMP_FORCE + GRAVITY * delta) * delta \<longrightarrow>
           velocityY (useFrame bounds (handleKeyDown s e) delta rot)
             = JUMP_FORCE + GRAVITY * delta
           \<and> \<not> isGrounded (useFrame bounds (handleKeyDown s e) delta rot)
           \<and> vec_y (camera (useFrame bounds (handleKeyDown s e) delta rot))
               = vec_y (camera s) + (JUMP_FORCE + GRAVITY * delta) * delta))
   \<and> (\<not> isLocked s \<longrightarrow> handleKeyDown s e = s)"
proof (intro conjI impI)
  assume a: "code e = ''Space'' \<and> isLocked s \<and> isGrounded s \<and> velocityY s = 0"
  let ?t = "handleKeyDown s e"
  show v: "velocityY ?t = JUMP_FORCE" and g: "\<not> isGrounded ?t" and c: "camera ?t = camera s"
    using a by (simp_all add: handleKeyDown_def Let_def KEYS_Space)
  have l: "isLocked ?t"
    using a by (simp add: handleKeyDown_def Let_def KEYS_Space)
  assume up: "GROUND_HEIGHT < vec_y (camera s) + (JUMP_FORCE + GRAVITY * delta) * delta"
  obtain newX newZ where cand: "candidate ?t delta rot = (newX, newZ)"
    by (cases "candidate ?t delta rot")
  have vert: "vertical ?t delta
      = (JUMP_FORCE + GRAVITY * delta, False,
         vec_y (camera s) + (JUMP_FORCE + GRAVITY * delta) * delta)"
    using up vertical_airborne [of ?t delta] by (simp add: v c)
  show "velocityY (useFrame bounds ?t delta rot) = JUMP_FORCE + GRAVITY * delta"
    and "\<not> isGrounded (useFrame bounds ?t delta rot)"
    and "vec_y (camera (useFrame bounds ?t delta rot))
           = vec_y (camera s) + (JUMP_FORCE + GRAVITY * delta) * delta"
    by (simp_all add: frame_locked(1,2,3) [OF l cand] vert)
qed (auto simp: handleKeyDown_def Let_def KEYS_Space)

text \<open>
  From the initial position with the pointer locked: the jump, the frame of 0.01 seconds
  after it, and a second press of the space bar in the air; and a press before the pointer
  is locked.
\<close>

theorem jump_gating_witness:
  "velocityY (handleKeyDown (setLocked True initialPlayer) (pressed ''Space'')) = JUMP_FORCE
   \<and> \<not> isGrounded (handleKeyDown (setLocked True initialPlayer) (pressed ''Space''))
   \<and> velocityY (useFrame staticCollisionBounds
        (handleKeyDown (setLocked True initialPlayer) (pressed ''Space'')) (1 / 100) noRotation)
      = 39 / 5
   \<and> handleKeyDown (handleKeyDown (setLocked True initialPlayer) (pressed ''Space''))
        (pressed ''Space'')
      = handleKeyDown (setLocked True initialPlayer) (pressed ''Space'')
   \<and> handleKeyDown initialPlayer (pressed ''Space'') = initialPlayer"
proof -
  let ?s = "setLocked True initialPlayer" and ?e = "pressed ''Space''"
  have e: "code ?e = ''Space''" "\<not> ctrlKey ?e" "\<not> shiftKey ?e"
    by (simp_all add: pressed_def)
  have u: "\<not> isLocked initialPlayer"
    by (simp add: initialPlayer_def)
  have jump: "velocityY (handleKeyDown ?s ?e) = JUMP_FORCE
      \<and> \<not> isGrounded (handleKeyDown ?s ?e)
      \<and> velocityY (useFrame staticCollisionBounds (handleKeyDown ?s ?e) (1 / 100) noRotation)
          = 39 / 5"
    using jump_gating [of ?e ?s "1 / 100" staticCollisionBounds noRotation] e locked_initial
    by (simp add: Vector3_def constants)
  then have "\<not> isGrounded (handleKeyDown ?s ?e)" by simp
  then have "handleKeyDown (handleKeyDown ?s ?e) ?e = handleKeyDown ?s ?e"
    using jump_gating [of ?e "handleKeyDown ?s ?e" "1 / 100" staticCollisionBounds noRotation] e
    by simp
  moreover have "handleKeyDown initialPlayer ?e = initialPlayer"
    using jump_gating [of ?e initialPlayer "1 / 100" staticCollisionBounds noRotation] u
    by simp
  ultimately show ?thesis using jump by simp
qed

text \<open>
  Before the pointer is locked the player is grounded with velocity 0, and the space bar
  changes nothing: the velocity is still 0 after the key-down and after the frame that
  follows. In an active component the velocity is \<open>JUMP_FORCE\<close> from the key-down until
  the next integration step, which leaves 7.8 when it takes 0.01 seconds.
\<close>

theorem jump_ignored_when_inactive:
  "isGrounded initialPlayer \<and> velocityY initialPlayer = 0
   \<and> velocityY (handleKeyDown initialPlayer (pressed ''Space'')) = 0
   \<and> isGrounded (handleKeyDown initialPlayer (pressed ''Space''))
   \<and> velocityY (useFrame staticCollisionBounds
         (handleKeyDown initialPlayer (pressed ''Space'')) (1 / 60) noRotation) = 0
   \<and> velocityY (useFrame staticCollisionBounds
         (handleKeyDown (setLocked True initialPlayer) (pressed ''Space'')) (1 / 100) noRotation)
       \<noteq> JUMP_FORCE"
  by (simp add: frame_after_jump) (simp add: handleKeyDown_def useFrame_def initialPlayer_def
      JUMP_FORCE_def)

section \<open>Ducking and standing up\<close>

text \<open>
  Claim C6, as amended. Let \<open>y1\<close> be the camera height after the vertical integration of an active
  frame of elapsed time \<open>\<Delta>t \<ge> 0\<close>, the height that the ground test examines and that
  the blending starts from. If the
  player is grounded (\<open>y1 \<le> GROUND_HEIGHT\<close>), duck is held and \<open>y1\<close> is above
  \<open>DUCK_HEIGHT\<close>, the frame ends at \<open>max DUCK_HEIGHT (y1 - 15 \<Delta>t)\<close>: the height decreases,
  by at most \<open>15 \<Delta>t\<close>, and does not go below \<open>DUCK_HEIGHT\<close>. If the player is grounded,
  duck is not held and \<open>y1\<close> is below \<open>GROUND_HEIGHT\<close>, the frame ends at
  \<open>min GROUND_HEIGHT (y1 + 15 \<Delta>t)\<close>: the height increases, by at most \<open>15 \<Delta>t\<close>, and
  does not go above \<open>GROUND_HEIGHT\<close>. If the player is airborne the height stays \<open>y1\<close>.
  An inactive frame leaves the height as it is.
\<close>

theorem duck_stand_blending:
  assumes "0 \<le> delta"
  shows
    "let y1 = vec_y (camera s) + (velocityY s + GRAVITY * delta) * delta;
         y2 = vec_y (camera (useFrame bounds s delta rot))
     in (isLocked s \<and> y1 \<le> GROUND_HEIGHT \<and> duck (moveState s) \<and> DUCK_HEIGHT < y1 \<longrightarrow>
           isGrounded (useFrame bounds s delta rot)
           \<and> y2 = max DUCK_HEIGHT (y1 - 15 * delta)
           \<and> y1 - 15 * delta \<le> y2 \<and> y2 \<le> y1 \<and> DUCK_HEIGHT \<le> y2)
      \<and> (isLocked s \<and> y1 \<le> GROUND_HEIGHT \<and> \<not> duck (moveState s) \<and> y1 < GROUND_HEIGHT \<longrightarrow>
           isGrounded (useFrame bounds s delta rot)
           \<and> y2 = min GROUND_HEIGHT (y1 + 15 * delta)
           \<and> y1 \<le> y2 \<and> y2 \<le> y1 + 15 * delta \<and> y2 \<le> GROUND_HEIGHT)
      \<and> (isLocked s \<and> GROUND_HEIGHT < y1 \<longrightarrow>
           \<not> isGrounded (useFrame bounds s delta rot) \<and> y2 = y1)
      \<and> (\<not> isLocked s \<longrightarrow> y2 = vec_y (camera s))"
proof (cases "isLocked s")
  case False
  then show ?thesis by (simp add: useFrame_def)
next
  case True
  obtain newX newZ where c: "candidate s delta rot = (newX, newZ)"
    by (cases "candidate s delta rot")
  note fr = frame_locked(2,3) [OF True c]
  show ?thesis
    unfolding Let_def fr
    using assms True
    by (auto simp: vertical_airborne vertical_grounded)
qed

text \<open>
  Frames of 0.01 seconds: ducking from height 2, standing up from height 1, and rising
  with velocity 8.
\<close>

theorem duck_stand_blending_witness:
  "vec_y (camera (useFrame staticCollisionBounds
       ((walkState 0 2 10)\<lparr>moveState := initialMoveState\<lparr>duck := True\<rparr>\<rparr>) (1 / 100) noRotation))
     = 231 / 125
   \<and> vec_y (camera (useFrame staticCollisionBounds (walkState 0 1 10) (1 / 100) noRotation)) = 287 / 250
   \<and> vec_y (camera (useFrame staticCollisionBounds ((walkState 0 2 10)\<lparr>velocityY := 8\<rparr>) (1 / 100) noRotation))
     = 1039 / 500"
proof -
  let ?d = "(walkState 0 2 10)\<lparr>moveState := initialMoveState\<lparr>duck := True\<rparr>\<rparr>"
  let ?j = "(walkState 0 2 10)\<lparr>velocityY := 8\<rparr>"
  have "vec_y (camera (useFrame staticCollisionBounds ?d (1 / 100) noRotation)) = 231 / 125"
    using duck_stand_blending
        [where s = ?d and delta = "1 / 100" and bounds = staticCollisionBounds and rot = noRotation]
    by (simp add: Let_def walkState_def Vector3_def constants)
  moreover have "vec_y (camera (useFrame staticCollisionBounds (walkState 0 1 10) (1 / 100) noRotation)) = 287 / 250"
    using duck_stand_blending
        [where s = "walkState 0 1 10" and delta = "1 / 100" and bounds = staticCollisionBounds
          and rot = noRotation]
    by (simp add: Let_def walkState_def initialMoveState_def Vector3_def constants)
  moreover have "vec_y (camera (useFrame staticCollisionBounds ?j (1 / 100) noRotation)) = 1039 / 500"
    using duck_stand_blending
        [where s = ?j and delta = "1 / 100" and bounds = staticCollisionBounds and rot = noRotation]
    by (simp add: Let_def walkState_def Vector3_def constants)
  ultimately show ?thesis by blast
qed

text \<open>
  Measured from the start of the frame the height can change by more than \<open>15 \<Delta>t\<close>,
  since gravity acts in every frame, also on the ground. The pointer is locked and the
  control key goes down while the player stands at height 2; the frame of 0.01 seconds
  that follows ends grounded at height 1.848, below \<open>2 - 15 * 0.01\<close>.
\<close>

theorem duck_faster_than_blend_rate:
  "duck (moveState (handleKeyDown (setLocked True initialPlayer)
       \<lparr>code = ''ControlLeft'', ctrlKey = True, shiftKey = False\<rparr>))
   \<and> DUCK_HEIGHT < vec_y (camera (handleKeyDown (setLocked True initialPlayer)
       \<lparr>code = ''ControlLeft'', ctrlKey = True, shiftKey = False\<rparr>))
   \<and> isGrounded (useFrame staticCollisionBounds
        (handleKeyDown (setLocked True initialPlayer)
           \<lparr>code = ''ControlLeft'', ctrlKey = True, shiftKey = False\<rparr>) (1 / 100) noRotation)
   \<and> vec_y (camera (useFrame staticCollisionBounds
        (handleKeyDown (setLocked True initialPlayer)
           \<lparr>code = ''ControlLeft'', ctrlKey = True, shiftKey = False\<rparr>) (1 / 100) noRotation))
     < vec_y (camera (handleKeyDown (setLocked True initialPlayer)
           \<lparr>code = ''ControlLeft'', ctrlKey = True, shiftKey = False\<rparr>)) - 15 * (1 / 100)"
proof -
  let ?s = "handleKeyDown (setLocked True initialPlayer)
       \<lparr>code = ''ControlLeft'', ctrlKey = True, shiftKey = False\<rparr>"
  have s: "?s = (setLocked True initialPlayer)\<lparr>moveState := initialMoveState\<lparr>duck := True\<rparr>\<rparr>"
    by (simp add: handleKeyDown_def KEYS_def setLocked_def initialPlayer_def Let_def)
  have l: "isLocked ?s" and d: "duck (moveState ?s)" and y: "vec_y (camera ?s) = 2"
    unfolding s by (simp_all add: setLocked_def initialPlayer_def Vector3_def)
  obtain newX newZ where c: "candidate ?s (1 / 100) noRotation = (newX, newZ)"
    by (cases "candidate ?s (1 / 100) noRotation")
  have v: "vertical ?s (1 / 100) = (0, True, 231 / 125)"
    unfolding s
    by (simp add: vertical_def setLocked_def initialPlayer_def Vector3_def Let_def constants)
  show ?thesis
    using d by (simp add: frame_locked(2,3) [OF l c] v y DUCK_HEIGHT_def)
qed

section \<open>The camera height while grounded\<close>




section \<open>The key flags while inactive\<close>

text \<open>
  Claim C8, as amended. A change of the pointer lock leaves the key flags as they are.
  While the component is inactive a key-down and a frame change nothing; a key-up, in any
  state, sets no flag that was not set. The jump flag is false in every reachable state.
\<close>

theorem moveState_when_inactive:
  "moveState (setLocked b s) = moveState s
   \<and> (\<not> isLocked s \<longrightarrow> handleKeyDown s e = s \<and> useFrame bounds s delta rot = s)
   \<and> noFlagRaised (moveState s) (moveState (handleKeyUp s e))
   \<and> (reachable dmax bounds s \<longrightarrow> \<not> jump (moveState s))"
  using keydown_unlocked [of s e] frame_unlocked [of s bounds delta rot]
    keyup_clears [of s e] reachable_jump_flag [of dmax bounds s]
  by (simp add: setLocked_def)

text \<open>
  Key events at the initial state and after the forward key went down in an active
  component.
\<close>

theorem moveState_when_inactive_witness:
  "handleKeyDown initialPlayer (pressed ''KeyW'') = initialPlayer
   \<and> useFrame staticCollisionBounds initialPlayer (1 / 60) noRotation = initialPlayer
   \<and> \<not> jump (moveState (handleKeyDown (setLocked True initialPlayer) (pressed ''Space'')))
   \<and> forward (moveState (handleKeyDown (setLocked True initialPlayer) (pressed ''KeyW'')))
   \<and> forward (moveState (handleKeyUp
        (handleKeyDown (setLocked True initialPlayer) (pressed ''KeyW'')) (pressed ''KeyD'')))
   \<and> \<not> forward (moveState (handleKeyUp
        (handleKeyDown (setLocked True initialPlayer) (pressed ''KeyW'')) (pressed ''KeyW'')))"
proof -
  let ?w = "handleKeyDown (setLocked True initialPlayer) (pressed ''KeyW'')"
  let ?j = "handleKeyDown (setLocked True initialPlayer) (pressed ''Space'')"
  have u: "\<not> isLocked initialPlayer" by (simp add: initialPlayer_def)
  have rj: "reachable 1 staticCollisionBounds ?j" by (intro reach_down reach_locked)
  have fw: "forward (moveState ?w)"
    by (simp add: handleKeyDown_def setLocked_def initialPlayer_def initialMoveState_def
        pressed_def KEYS_def Let_def)
  have fd: "forward (moveState (handleKeyUp ?w (pressed ''KeyD'')))"
    using fw by (simp add: handleKeyUp_def pressed_def KEYS_def Let_def)
  have "\<not> forward (moveState (handleKeyUp ?w (pressed ''KeyW'')))"
    by (simp add: handleKeyUp_def pressed_def KEYS_def Let_def)
  moreover have "noFlagRaised (moveState ?w) (moveState (handleKeyUp ?w (pressed ''KeyD'')))"
    using moveState_when_inactive [of True ?w "pressed ''KeyD''" staticCollisionBounds "1 / 60" noRotation 1]
    by simp
  moreover have "handleKeyDown initialPlayer (pressed ''KeyW'') = initialPlayer
      \<and> useFrame staticCollisionBounds initialPlayer (1 / 60) noRotation = initialPlayer"
    using moveState_when_inactive [of True initialPlayer "pressed ''KeyW''" staticCollisionBounds "1 / 60"
        noRotation 1] u
    by simp
  moreover have "\<not> jump (moveState ?j)"
    using moveState_when_inactive [of True ?j "pressed ''KeyW''" staticCollisionBounds "1 / 60" noRotation 1] rj
    by simp
  ultimately show ?thesis using fw fd by blast
qed

text \<open>
  The forward key goes down while the pointer is locked, and the pointer is then unlocked:
  the state is inactive and the forward flag is still set.
\<close>

theorem inactive_flag_still_set:
  "reachable 1 staticCollisionBounds (setLocked False (handleKeyDown (setLocked True initialPlayer)
       \<lparr>code = ''KeyW'', ctrlKey = False, shiftKey = False\<rparr>))
   \<and> \<not> isLocked (setLocked False (handleKeyDown (setLocked True initialPlayer)
       \<lparr>code = ''KeyW'', ctrlKey = False, shiftKey = False\<rparr>))
   \<and> forward (moveState (setLocked False (handleKeyDown (setLocked True initialPlayer)
       \<lparr>code = ''KeyW'', ctrlKey = False, shiftKey = False\<rparr>)))"
proof (intro conjI)
  show "reachable 1 staticCollisionBounds (setLocked False (handleKeyDown (setLocked True initialPlayer)
       \<lparr>code = ''KeyW'', ctrlKey = False, shiftKey = False\<rparr>))"
    by (intro reach_lock reach_down reach_init)
qed (simp_all add: setLocked_def handleKeyDown_def KEYS_def initialPlayer_def Let_def)

section \<open>Fog\<close>

text \<open>
  Claim C9. In an active frame from a reachable state, or from any state whose scene has
  fog (the update is guarded by a null test, and every reachable state has fog), the fog is
  set to \<open>near = 5 + intensity * 15\<close> and \<open>far = 30 + intensity * 40\<close>, where the
  intensity is \<open>(d - 25) / (100 - 25)\<close> clamped to \<open>[0, 1]\<close> and \<open>d\<close> is the planar
  distance of the committed position from the origin. Near and far do not decrease when
  \<open>d\<close> grows; the intensity is 0 up to \<open>FOG_START_DISTANCE\<close> and 1 from
  \<open>FOG_MAX_DISTANCE\<close> on.
\<close>

theorem fog_outputs:
  "(isLocked s \<and> (reachable dmax bounds s \<or> fog s \<noteq> None) \<longrightarrow>
      fog (useFrame bounds s delta rot)
        = Some \<lparr>near = 5 + fogIntensity (planar (camera (useFrame bounds s delta rot))) * 15,
                far = 30 + fogIntensity (planar (camera (useFrame bounds s delta rot))) * 40\<rparr>)
   \<and> fogIntensity d = max 0 (min 1 ((d - 25) / (100 - 25)))
   \<and> (d1 \<le> d2 \<longrightarrow>
        fogIntensity d1 \<le> fogIntensity d2
        \<and> 5 + fogIntensity d1 * 15 \<le> 5 + fogIntensity d2 * 15
        \<and> 30 + fogIntensity d1 * 40 \<le> 30 + fogIntensity d2 * 40)
   \<and> (d \<le> FOG_START_DISTANCE \<longrightarrow> fogIntensity d = 0)
   \<and> (FOG_MAX_DISTANCE \<le> d \<longrightarrow> fogIntensity d = 1)"
proof (intro conjI impI)
  assume a: "isLocked s \<and> (reachable dmax bounds s \<or> fog s \<noteq> None)"
  then have "fog s \<noteq> None"
    using reachable_fog by blast
  then obtain f where f: "fog s = Some f" by blast
  obtain newX newZ where c: "candidate s delta rot = (newX, newZ)"
    by (cases "candidate s delta rot")
  show "fog (useFrame bounds s delta rot)
        = Some \<lparr>near = 5 + fogIntensity (planar (camera (useFrame bounds s delta rot))) * 15,
                far = 30 + fogIntensity (planar (camera (useFrame bounds s delta rot))) * 40\<rparr>"
    using a f by (simp add: frame_locked(4,5,6) [OF _ c] updateFog_Some planar_def)
next
  show "fogIntensity d = max 0 (min 1 ((d - 25) / (100 - 25)))"
    by (rule fogIntensity_clamp)
next
  assume "d1 \<le> d2"
  then show m: "fogIntensity d1 \<le> fogIntensity d2" by (rule fogIntensity_mono)
  then show "5 + fogIntensity d1 * 15 \<le> 5 + fogIntensity d2 * 15"
    and "30 + fogIntensity d1 * 40 \<le> 30 + fogIntensity d2 * 40"
    by simp_all
next
  assume "d \<le> FOG_START_DISTANCE"
  then show "fogIntensity d = 0" by (simp add: fogIntensity_low FOG_START_DISTANCE_def)
next
  assume "FOG_MAX_DISTANCE \<le> d"
  then show "fogIntensity d = 1" by (simp add: fogIntensity_high FOG_MAX_DISTANCE_def)
qed

text \<open>
  A player who is put back on the wall, at distance 75, the first frame after the pointer is
  locked, and the distances 10 and 120.
\<close>

theorem fog_outputs_witness:
  "fog (useFrame staticCollisionBounds (walkState 75 2 0) (1 / 100) noRotation)
     = Some \<lparr>near = 15, far = 170 / 3\<rparr>
   \<and> fog (useFrame staticCollisionBounds (setLocked True initialPlayer) (1 / 60) noRotation)
     = Some \<lparr>near = 5 + fogIntensity (planar (camera
          (useFrame staticCollisionBounds (setLocked True initialPlayer) (1 / 60) noRotation))) * 15,
         far = 30 + fogIntensity (planar (camera
          (useFrame staticCollisionBounds (setLocked True initialPlayer) (1 / 60) noRotation))) * 40\<rparr>
   \<and> fogIntensity 75 = 2 / 3
   \<and> fogIntensity 10 = 0 \<and> fogIntensity 120 = 1
   \<and> 5 + fogIntensity 10 * 15 \<le> 5 + fogIntensity 75 * 15"
proof -
  let ?s = "walkState 75 2 0"
  let ?i = "setLocked True initialPlayer"
  have c: "candidate ?s (1 / 100) noRotation = (75, - (1 / 10))"
    by (simp add: candidate_walk)
  have w: "WALL_RADIUS \<le> sqrt (75 * 75 + (- (1 / 10)) * (- (1 / 10)))"
    by (simp add: WALL_RADIUS_def sqrt_ge_pos)
  have p: "planar (camera (useFrame staticCollisionBounds ?s (1 / 100) noRotation)) = 75"
    using frame_on_wall [OF walk_facts(1) c w] by (simp add: WALL_RADIUS_def)
  note t = fog_outputs [of ?s 1 staticCollisionBounds "1 / 100" noRotation 75 10 75]
  note t2 = fog_outputs [of ?s 1 staticCollisionBounds "1 / 100" noRotation 10 10 75]
  note t3 = fog_outputs [of ?s 1 staticCollisionBounds "1 / 100" noRotation 120 10 75]
  note t4 = fog_outputs [of ?i 1 staticCollisionBounds "1 / 60" noRotation 75 10 75]
  have i: "fogIntensity 75 = 2 / 3"
    using t by simp
  have "fog (useFrame staticCollisionBounds ?s (1 / 100) noRotation)
          = Some \<lparr>near = 15, far = 170 / 3\<rparr>"
    using t walk_facts(1,5) by (simp add: p i)
  moreover have "fog (useFrame staticCollisionBounds ?i (1 / 60) noRotation)
     = Some \<lparr>near = 5 + fogIntensity (planar (camera
          (useFrame staticCollisionBounds ?i (1 / 60) noRotation))) * 15,
         far = 30 + fogIntensity (planar (camera
          (useFrame staticCollisionBounds ?i (1 / 60) noRotation))) * 40\<rparr>"
    using t4 locked_initial(1) reach_locked [of 1 staticCollisionBounds] by blast
  moreover have "fogIntensity 10 = 0" using t2 by (simp add: constants)
  moreover have "fogIntensity 120 = 1" using t3 by (simp add: constants)
  moreover have "5 + fogIntensity 10 * 15 \<le> 5 + fogIntensity 75 * 15" using t by simp
  ultimately show ?thesis using i by blast
qed

section \<open>The height of the collision test\<close>

text \<open>
  Claim C10. In an active frame whose candidate is inside the wall, the candidate is
  committed unless the collision test finds a hit at the candidate's horizontal
  coordinates, with vertical coordinate and player height both \<open>DUCK_HEIGHT\<close> when duck is
  held and both \<open>GROUND_HEIGHT\<close> otherwise. The committed horizontal position is the same
  whatever the camera height, the vertical velocity and the grounded flag are.
\<close>

theorem collision_tested_at_duck_state_height:
  assumes "isLocked s" and "candidate s delta rot = (newX, newZ)"
    and "\<not> WALL_RADIUS \<le> sqrt (newX * newX + newZ * newZ)"
  shows "(vec_x (camera (useFrame bounds s delta rot)), vec_z (camera (useFrame bounds s delta rot)))
           = (if checkCollision bounds
                   \<lparr>vec_x = newX,
                    vec_y = (if duck (moveState s) then DUCK_HEIGHT else GROUND_HEIGHT),
                    vec_z = newZ\<rparr>
                   (if duck (moveState s) then DUCK_HEIGHT else GROUND_HEIGHT)
              then (vec_x (camera s), vec_z (camera s)) else (newX, newZ))
         \<and> vec_x (camera (useFrame bounds
               (s\<lparr>camera := (camera s)\<lparr>vec_y := cy\<rparr>, velocityY := v, isGrounded := g\<rparr>) delta rot))
             = vec_x (camera (useFrame bounds s delta rot))
         \<and> vec_z (camera (useFrame bounds
               (s\<lparr>camera := (camera s)\<lparr>vec_y := cy\<rparr>, velocityY := v, isGrounded := g\<rparr>) delta rot))
             = vec_z (camera (useFrame bounds s delta rot))"
proof -
  let ?s2 = "s\<lparr>camera := (camera s)\<lparr>vec_y := cy\<rparr>, velocityY := v, isGrounded := g\<rparr>"
  have l2: "isLocked ?s2" using assms(1) by simp
  have c2: "candidate ?s2 delta rot = (newX, newZ)"
    using assms(2) by (simp add: candidate_def)
  have h2: "horizontal bounds ?s2 newX newZ = horizontal bounds s newX newZ"
    by (simp add: horizontal_def)
  show ?thesis
    unfolding frame_locked(4,5) [OF l2 c2] frame_locked(4,5) [OF assms(1,2)] h2
    by (simp add: horizontal_inside [OF assms(3)] Vector3_def)
qed

text \<open>
  Two frames of 0.01 seconds beside the first column, in the scene of the component, with
  the candidate \<open>(-6.6, -5)\<close>. An airborne player at height 3: the move is tested at
  standing height and committed, and the frame ends airborne. A player who has just
  released the duck key, with the camera at height 1 and rising to 1.148: the move is
  committed, since the test at standing height finds nothing, although the collision test
  at the camera position that results finds the base of the column.
\<close>

theorem collision_tested_at_duck_state_height_witness:
  "(vec_x (camera (useFrame staticCollisionBounds
        ((walkState (- (33 / 5)) 3 (- (49 / 10)))\<lparr>isGrounded := False\<rparr>) (1 / 100) noRotation)),
    vec_z (camera (useFrame staticCollisionBounds
        ((walkState (- (33 / 5)) 3 (- (49 / 10)))\<lparr>isGrounded := False\<rparr>) (1 / 100) noRotation)))
     = (- (33 / 5), - 5)
   \<and> \<not> isGrounded (useFrame staticCollisionBounds
        ((walkState (- (33 / 5)) 3 (- (49 / 10)))\<lparr>isGrounded := False\<rparr>) (1 / 100) noRotation)
   \<and> (vec_x (camera (useFrame staticCollisionBounds
          (walkState (- (33 / 5)) 1 (- (49 / 10))) (1 / 100) noRotation)),
      vec_z (camera (useFrame staticCollisionBounds
          (walkState (- (33 / 5)) 1 (- (49 / 10))) (1 / 100) noRotation)))
     = (- (33 / 5), - 5)
   \<and> checkCollision staticCollisionBounds
       (camera (useFrame staticCollisionBounds
          (walkState (- (33 / 5)) 1 (- (49 / 10))) (1 / 100) noRotation))
       GROUND_HEIGHT"
proof -
  let ?s = "(walkState (- (33 / 5)) 3 (- (49 / 10)))\<lparr>isGrounded := False\<rparr>"
  let ?r = "walkState (- (33 / 5)) 1 (- (49 / 10))"
  let ?B = "staticCollisionBounds"
  have l: "isLocked ?s" and nd: "\<not> duck (moveState ?s)"
    and lr: "isLocked ?r" and ndr: "\<not> duck (moveState ?r)"
    by (simp_all add: walkState_def initialMoveState_def)
  have c: "candidate ?s (1 / 100) noRotation = (- (33 / 5), - 5)"
    using candidate_walk [of "- (33 / 5)" 3 "- (49 / 10)" "1 / 100"]
    by (simp add: candidate_def)
  have cr: "candidate ?r (1 / 100) noRotation = (- (33 / 5), - 5)"
    by (simp add: candidate_walk)
  have w: "\<not> WALL_RADIUS \<le> sqrt ((- (33 / 5)) * (- (33 / 5)) + (- 5) * (- 5 :: real))"
    by (simp add: WALL_RADIUS_def sqrt_ge_pos)
  have free: "\<not> checkCollision ?B \<lparr>vec_x = - (33 / 5), vec_y = GROUND_HEIGHT, vec_z = - 5\<rparr>
      GROUND_HEIGHT"
    using scene_standing_free by (simp add: Vector3_def GROUND_HEIGHT_def)
  have air: "\<not> isGrounded (useFrame ?B ?s (1 / 100) noRotation)"
    unfolding frame_locked(2) [OF l c]
    by (simp add: vertical_def walkState_def Vector3_def Let_def constants)
  have "(vec_x (camera (useFrame ?B ?s (1 / 100) noRotation)),
         vec_z (camera (useFrame ?B ?s (1 / 100) noRotation))) = (- (33 / 5), - 5)"
    using collision_tested_at_duck_state_height
      [OF l c w, where bounds = ?B and cy = 0 and v = 0 and g = True] nd free
    by simp
  moreover have "(vec_x (camera (useFrame ?B ?r (1 / 100) noRotation)),
         vec_z (camera (useFrame ?B ?r (1 / 100) noRotation))) = (- (33 / 5), - 5)"
    using collision_tested_at_duck_state_height
      [OF lr cr w, where bounds = ?B and cy = 0 and v = 0 and g = True] ndr free
    by simp
  moreover have "checkCollision ?B (camera (useFrame ?B ?r (1 / 100) noRotation)) GROUND_HEIGHT"
    using scene_crouched_hit by (simp add: rising_camera GROUND_HEIGHT_def)
  ultimately show ?thesis using air by blast
qed

end
